theory Spec2Isabelle
  imports Complex_Main "HOL-Library.List_Lexorder" "HOL-Library.Char_ord" "HOL-Library.AList"
begin

section \<open>The LAMMPS data writer of mBuild\<close>

text \<open>
  This theory embeds \<^verbatim>\<open>write_lammpsdata\<close> of \<^verbatim>\<open>mbuild/formats/lammpsdata.py\<close>.
  Python floats and numpy scalars are idealised as real numbers; the not-a-number and
  infinite results that numpy produces in the triclinic box transform are kept as values
  of their own. Every \<^verbatim>\<open>data.write\<close> call of the source is one element of the list of
  written lines, so the text of a line is fixed by its constructor and its arguments.
\<close>

subsection \<open>Errors\<close>

text \<open>
  The three \<^verbatim>\<open>ValueError\<close>s raised by the source are told apart by their message; the
  other constructors are the exceptions Python raises by itself at an attribute of
  \<^verbatim>\<open>None\<close>, an index out of range, an unbound local name, a missing key, a division by
  zero, a complex number given to \<^verbatim>\<open>round\<close> (or \<^verbatim>\<open>None\<close> given to \<^verbatim>\<open>len\<close>), and the
  \<^verbatim>\<open>ValueError\<close> of \<^verbatim>\<open>list.index\<close>.
\<close>

datatype error =
    InvalidAtomStyle string
  | MultipleDihedralStyles
  | UnsupportedCombiningRule
  | AttributeError
  | IndexError
  | NameError
  | KeyError
  | ZeroDivisionError
  | TypeError
  | NotInList

fun mapE :: "('a \<Rightarrow> error + 'b) \<Rightarrow> 'a list \<Rightarrow> error + 'b list" where
  "mapE f [] = Inr []"
| "mapE f (x # xs) =
     (case f x of
        Inl e \<Rightarrow> Inl e
      | Inr y \<Rightarrow> (case mapE f xs of Inl e \<Rightarrow> Inl e | Inr ys \<Rightarrow> Inr (y # ys)))"

subsection \<open>The topology (a ParmEd structure, read only)\<close>

record atom =
  idx :: nat
  atype :: string
  name :: string
  charge :: real
  mass :: real
  sigma :: real
  epsilon :: real
  coord_x :: real
  coord_y :: real
  coord_z :: real

text \<open>
  The parameter objects. A term that has not been parametrised has the type \<^verbatim>\<open>None\<close>,
  and reading a field of it raises \<^verbatim>\<open>AttributeError\<close>.
\<close>

record bond_type =
  bt_k :: real
  bt_req :: real

record angle_type =
  at_k :: real
  at_theteq :: real

record rb_torsion_type =
  c0 :: real
  c1 :: real
  c2 :: real
  c3 :: real
  c4 :: real
  c5 :: real
  rb_scee :: real
  rb_scnb :: real

record dihedral_type =
  phi_k :: real
  per :: real
  phase :: real
  dt_scee :: real
  dt_scnb :: real

record improper_type =
  psi_k :: real
  psi_eq :: real

record bond =
  b_atom1 :: atom
  b_atom2 :: atom
  b_type :: "bond_type option"

record angle =
  a_atom1 :: atom
  a_atom2 :: atom
  a_atom3 :: atom
  a_type :: "angle_type option"

record urey_bradley =
  ub_atom1 :: atom
  ub_atom2 :: atom
  ub_type :: "bond_type option"

record rb_torsion =
  rb_atom1 :: atom
  rb_atom2 :: atom
  rb_atom3 :: atom
  rb_atom4 :: atom
  rb_type :: "rb_torsion_type option"

text \<open>
  A dihedral carries the list of its terms (a \<^verbatim>\<open>DihedralTypeList\<close> once
  \<^verbatim>\<open>join_dihedrals\<close> has run) and the flag \<^verbatim>\<open>improper\<close>.
\<close>

record dihedral =
  d_atom1 :: atom
  d_atom2 :: atom
  d_atom3 :: atom
  d_atom4 :: atom
  d_improper :: bool
  d_type :: "dihedral_type list option"

record improper =
  i_atom1 :: atom
  i_atom2 :: atom
  i_atom3 :: atom
  i_atom4 :: atom
  i_type :: "improper_type option"

subsection \<open>Python's \<^verbatim>\<open>round\<close>, \<^verbatim>\<open>sorted\<close> on a pair\<close>

text \<open>
  \<^verbatim>\<open>round(x, n)\<close> rounds to \<open>n\<close> decimals, a tie going to the even neighbour.
\<close>

definition py_round :: "nat \<Rightarrow> real \<Rightarrow> real" where
  "py_round n x =
     (let y = x * 10 ^ n; f = \<lfloor>y\<rfloor>; d = y - of_int f
      in of_int (if d < 1 / 2 then f
                 else if 1 / 2 < d then f + 1
                 else if even f then f else f + 1) / 10 ^ n)"

text \<open>\<^verbatim>\<open>tuple(sorted((s, t)))\<close> on two strings, compared by code point.\<close>

definition sorted_pair :: "string \<Rightarrow> string \<Rightarrow> string \<times> string" where
  "sorted_pair s t = (if t < s then (t, s) else (s, t))"

subsection \<open>Canonical keys\<close>

type_synonym bond_key = "real \<times> real \<times> (string \<times> string)"
type_synonym angle_key = "real \<times> real \<times> string \<times> (string \<times> string)"
type_synonym charmm_angle_key = "real \<times> real \<times> real \<times> real \<times> (string \<times> string)"
type_synonym rb_key =
  "real \<times> real \<times> real \<times> real \<times> real \<times> real \<times> real \<times> real \<times> string \<times> string \<times> string \<times> string"
type_synonym charmm_dihedral_key =
  "real \<times> int \<times> int \<times> real \<times> real \<times> real \<times> string \<times> string \<times> string \<times> string"
type_synonym improper_key = "real \<times> real \<times> string \<times> string \<times> string \<times> string"

text \<open>Lines 173-176 and 178-180: the key of one bond.\<close>

definition bond_key :: "bond \<Rightarrow> error + bond_key" where
  "bond_key b =
     (case b_type b of
        None \<Rightarrow> Inl AttributeError
      | Some t \<Rightarrow>
          Inr (py_round 3 (bt_k t), py_round 3 (bt_req t),
               sorted_pair (atype (b_atom1 b)) (atype (b_atom2 b))))"

text \<open>
  Lines 187-192: the scan of all Urey-Bradley terms for one angle. The pair
  \<open>(ub_k, ub_req)\<close> starts at zero and is overwritten by every term whose
  \<open>(atom1, atom2)\<close> equals the angle's \<open>(atom1, atom3)\<close>, in this order only. Atoms are
  compared by identity; here they are records, and the atoms of one structure differ in
  \<open>idx\<close>.
\<close>

fun ub_scan :: "angle \<Rightarrow> urey_bradley list \<Rightarrow> real \<times> real \<Rightarrow> error + real \<times> real" where
  "ub_scan a [] acc = Inr acc"
| "ub_scan a (ub # ubs) acc =
     (if (a_atom1 a, a_atom3 a) = (ub_atom1 ub, ub_atom2 ub)
      then (case ub_type ub of
              None \<Rightarrow> Inl AttributeError
            | Some t \<Rightarrow> ub_scan a ubs (bt_k t, bt_req t))
      else ub_scan a ubs acc)"

text \<open>Lines 186-197: the key of one angle under the Urey-Bradley style.\<close>

definition charmm_angle_key :: "urey_bradley list \<Rightarrow> angle \<Rightarrow> error + charmm_angle_key" where
  "charmm_angle_key ubs a =
     (case ub_scan a ubs (0, 0) of
        Inl e \<Rightarrow> Inl e
      | Inr (ub_k, ub_req) \<Rightarrow>
          (case a_type a of
             None \<Rightarrow> Inl AttributeError
           | Some t \<Rightarrow>
               Inr (py_round 3 (at_k t), py_round 3 (at_theteq t),
                    py_round 3 ub_k, py_round 3 ub_req,
                    sorted_pair (atype (a_atom1 a)) (atype (a_atom3 a)))))"

text \<open>Lines 205-209 and 211-214: the key of one angle under the harmonic style.\<close>

definition angle_key :: "angle \<Rightarrow> error + angle_key" where
  "angle_key a =
     (case a_type a of
        None \<Rightarrow> Inl AttributeError
      | Some t \<Rightarrow>
          Inr (py_round 3 (at_k t), py_round 3 (at_theteq t), atype (a_atom2 a),
               sorted_pair (atype (a_atom1 a)) (atype (a_atom3 a))))"

text \<open>Lines 219-228 and 231-240: the key of one Ryckaert-Bellemans torsion.\<close>

definition rb_key :: "rb_torsion \<Rightarrow> error + rb_key" where
  "rb_key d =
     (case rb_type d of
        None \<Rightarrow> Inl AttributeError
      | Some t \<Rightarrow>
          Inr (py_round 3 (c0 t), py_round 3 (c1 t), py_round 3 (c2 t), py_round 3 (c3 t),
               py_round 3 (c4 t), py_round 3 (c5 t),
               py_round 1 (rb_scee t), py_round 1 (rb_scnb t),
               atype (rb_atom1 d), atype (rb_atom2 d),
               atype (rb_atom3 d), atype (rb_atom4 d)))"

text \<open>\<^verbatim>\<open>int(x)\<close> on a float truncates towards zero.\<close>

definition py_int :: "real \<Rightarrow> int" where
  "py_int x = (if 0 \<le> x then \<lfloor>x\<rfloor> else \<lceil>x\<rceil>)"

text \<open>
  Lines 246-257: the keys of one joined dihedral, one per term; a dihedral flagged
  \<^verbatim>\<open>improper\<close> gives none. \<^verbatim>\<open>len(None)\<close> raises \<^verbatim>\<open>TypeError\<close>, and
  \<^verbatim>\<open>1 / len(...)\<close> of an empty term list raises \<^verbatim>\<open>ZeroDivisionError\<close>.
\<close>

definition charmm_dihedral_keys :: "dihedral \<Rightarrow> error + charmm_dihedral_key list" where
  "charmm_dihedral_keys d =
     (if d_improper d then Inr []
      else (case d_type d of
              None \<Rightarrow> Inl TypeError
            | Some ts \<Rightarrow>
                if length ts = 0 then Inl ZeroDivisionError
                else Inr (map (\<lambda>t.
                       (py_round 3 (phi_k t), py_int (py_round 0 (per t)),
                        py_int (py_round 0 (phase t)),
                        py_round 4 (1 / real (length ts)),
                        py_round 1 (dt_scee t), py_round 1 (dt_scnb t),
                        atype (d_atom1 d), atype (d_atom2 d),
                        atype (d_atom3 d), atype (d_atom4 d))) ts)))"

text \<open>Lines 264-267 and 269-272: the key of one improper.\<close>

definition improper_key :: "improper \<Rightarrow> error + improper_key" where
  "improper_key i =
     (case i_type i of
        None \<Rightarrow> Inl AttributeError
      | Some t \<Rightarrow>
          Inr (py_round 3 (psi_k t), py_round 3 (psi_eq t),
               atype (i_atom1 i), atype (i_atom2 i),
               atype (i_atom3 i), atype (i_atom4 i)))"

subsection \<open>Sets, enumeration and lookup\<close>

text \<open>
  Python fixes no order for the iteration of a \<^verbatim>\<open>set\<close>; for strings, and tuples holding
  strings, the order changes from one interpreter process to the next, since string
  hashes are salted per process. The iteration of \<^verbatim>\<open>set(xs)\<close> is therefore a function
  given from outside, one for each element type the source builds a set of. What Python
  guarantees is \<open>valid_order\<close>: every element of \<open>xs\<close> is visited once.
\<close>

record set_order =
  types_order :: "string list \<Rightarrow> string list"
  bond_order :: "bond_key list \<Rightarrow> bond_key list"
  angle_order :: "angle_key list \<Rightarrow> angle_key list"
  charmm_angle_order :: "charmm_angle_key list \<Rightarrow> charmm_angle_key list"
  rb_order :: "rb_key list \<Rightarrow> rb_key list"
  charmm_dihedral_order :: "charmm_dihedral_key list \<Rightarrow> charmm_dihedral_key list"
  improper_order :: "improper_key list \<Rightarrow> improper_key list"

definition valid_order :: "('a list \<Rightarrow> 'a list) \<Rightarrow> bool" where
  "valid_order f = (\<forall>xs. distinct (f xs) \<and> set (f xs) = set xs)"

text \<open>
  \<^verbatim>\<open>OrderedDict([(y, x+1) for x, y in dict(enumerate(set(keys))).items()])\<close>: the keys
  in the order the set is iterated, numbered from 1.
\<close>

definition enumerate_ids :: "('k list \<Rightarrow> 'k list) \<Rightarrow> 'k list \<Rightarrow> ('k \<times> nat) list" where
  "enumerate_ids order ks = zip (order ks) [1 ..< Suc (length (order ks))]"

text \<open>\<^verbatim>\<open>[unique[k] for k in keys]\<close>; a missing key raises \<^verbatim>\<open>KeyError\<close>.\<close>

definition lookup_ids :: "('k \<times> nat) list \<Rightarrow> 'k list \<Rightarrow> error + nat list" where
  "lookup_ids unique ks =
     mapE (\<lambda>k. case map_of unique k of None \<Rightarrow> Inl KeyError | Some i \<Rightarrow> Inr i) ks"

text \<open>
  The pattern shared by lines 173-181, 199-201, 205-215, 219-241, 259-261 and 264-272:
  the keys of all instances, the table of the distinct keys, and the ID of every key.
\<close>

definition assign_ids ::
  "('k list \<Rightarrow> 'k list) \<Rightarrow> error + 'k list \<Rightarrow> error + ('k \<times> nat) list \<times> nat list" where
  "assign_ids order keys =
     (case keys of
        Inl e \<Rightarrow> Inl e
      | Inr ks \<Rightarrow>
          (let unique = enumerate_ids order ks
           in case lookup_ids unique ks of
                Inl e \<Rightarrow> Inl e
              | Inr ids \<Rightarrow> Inr (unique, ids)))"

text \<open>\<^verbatim>\<open>len(set(xs))\<close>.\<close>

definition len_set :: "'a list \<Rightarrow> nat" where
  "len_set xs = length (remdups xs)"

text \<open>
  \<^verbatim>\<open>dict(pairs)\<close> and \<^verbatim>\<open>d[k] = v\<close> on a dictionary that is iterated in insertion
  order: a key that is already present keeps its place and takes the new value.
\<close>

definition py_dict :: "('k \<times> 'v) list \<Rightarrow> ('k \<times> 'v) list" where
  "py_dict ps = foldl (\<lambda>d (k, v). AList.update k v d) [] ps"

definition dict_get :: "('k \<times> 'v) list \<Rightarrow> 'k \<Rightarrow> error + 'v" where
  "dict_get d k = (case map_of d k of None \<Rightarrow> Inl KeyError | Some v \<Rightarrow> Inr v)"

text \<open>\<^verbatim>\<open>xs.index(x)\<close>: the first position of \<open>x\<close>, or \<^verbatim>\<open>ValueError\<close>.\<close>

fun index_from :: "nat \<Rightarrow> 'a list \<Rightarrow> 'a \<Rightarrow> error + nat" where
  "index_from n [] x = Inl NotInList"
| "index_from n (y # ys) x = (if y = x then Inr n else index_from (Suc n) ys x)"

definition py_index :: "'a list \<Rightarrow> 'a \<Rightarrow> error + nat" where
  "py_index xs x = index_from 0 xs x"

text \<open>\<^verbatim>\<open>xs[i]\<close>, or \<^verbatim>\<open>IndexError\<close>.\<close>

definition py_nth :: "'a list \<Rightarrow> nat \<Rightarrow> error + 'a" where
  "py_nth xs i = (if i < length xs then Inr (xs ! i) else Inl IndexError)"

subsection \<open>Natural ordering of the atom types\<close>

text \<open>
  Modelled from the spec: \<^verbatim>\<open>natural_sort\<close> of \<^verbatim>\<open>mbuild.utils.sorting\<close> is not among the
  sources. The spec has the atom types ``sorted using a natural ordering (numeric
  substrings compared as integers, not lexicographically) so that e.g. type C2 sorts
  before C10''. The key of a string is the list of its maximal runs of digits and of
  other characters, starting with a (possibly empty) run of other characters; a run of
  digits is the one-element list of its value, any other run the list of its character
  codes, and keys are compared lexicographically.
\<close>

definition is_digit :: "char \<Rightarrow> bool" where
  "is_digit c = (CHR ''0'' \<le> c \<and> c \<le> CHR ''9'')"

definition digits_value :: "string \<Rightarrow> nat" where
  "digits_value ds = foldl (\<lambda>n c. 10 * n + (of_char c - 48)) 0 ds"

function natural_runs :: "string \<Rightarrow> nat list \<Rightarrow> nat list list" where
  "natural_runs [] acc = [acc]"
| "natural_runs (c # cs) acc =
     (if is_digit c
      then acc # [digits_value (c # takeWhile is_digit cs)]
             # natural_runs (dropWhile is_digit cs) []
      else natural_runs cs (acc @ [of_char c]))"
  by pat_completeness auto
termination
  by (relation "measure (\<lambda>(s, acc). length s)")
     (auto simp: length_dropWhile_le less_Suc_eq_le)

definition natural_sort :: "string \<Rightarrow> nat list list" where
  "natural_sort s = natural_runs s []"

subsection \<open>The structure, the configuration and the collaborators\<close>

text \<open>
  \<open>bond_types\<close> is the structure's table of bond parameter objects (only its length is
  read); \<open>box\<close> holds \<^verbatim>\<open>structure.box[0:3]\<close> and \<^verbatim>\<open>structure.box[3:6]\<close>, and is
  \<open>None\<close> for a structure without a box (then \<^verbatim>\<open>structure.box[0:3]\<close> raises
  \<^verbatim>\<open>TypeError\<close>);
  \<open>nbfix_types\<close> is \<^verbatim>\<open>ParameterSet.from_structure(structure).nbfix_types\<close> in the order
  of its items, each key a pair of type labels and each value \<open>(rmin, epsilon)\<close>.
\<close>

record "structure" =
  atoms :: "atom list"
  bonds :: "bond list"
  angles :: "angle list"
  urey_bradleys :: "urey_bradley list"
  rb_torsions :: "rb_torsion list"
  dihedrals :: "dihedral list"
  impropers :: "improper list"
  bond_types :: "bond_type list"
  box :: "((real \<times> real \<times> real) \<times> (real \<times> real \<times> real)) option"
  combining_rule :: string
  has_NBFIX :: bool
  nbfix_types :: "((string \<times> string) \<times> (real \<times> real)) list"

record config =
  filename :: string
  atom_style :: string
  detect_forcefield_style :: bool
  nbfix_in_data_file :: bool
  use_urey_bradleys :: bool
  use_rb_torsions :: bool
  use_dihedrals :: bool

text \<open>
  What the writer takes from outside its own file: the iteration orders of Python's sets,
  ParmEd's \<^verbatim>\<open>join_dihedrals\<close> (the dihedral list after the call), \<^verbatim>\<open>RB_to_OPLS\<close> of
  \<^verbatim>\<open>mbuild.utils.conversion\<close>, and the corners \<^verbatim>\<open>mins\<close> and \<^verbatim>\<open>maxs\<close> that the class
  \<^verbatim>\<open>Box\<close> of mBuild derives from the lengths; a \<^verbatim>\<open>Box\<close> keeps the lengths and angles it
  is built from.
\<close>

record collaborators =
  orders :: set_order
  join_dihedrals :: "dihedral list \<Rightarrow> dihedral list"
  RB_to_OPLS :: "real \<Rightarrow> real \<Rightarrow> real \<Rightarrow> real \<Rightarrow> real \<Rightarrow> real \<Rightarrow> real \<times> real \<times> real \<times> real"
  Box_mins :: "real \<times> real \<times> real \<Rightarrow> real \<times> real \<times> real"
  Box_maxs :: "real \<times> real \<times> real \<Rightarrow> real \<times> real \<times> real"

subsection \<open>numpy scalars in the box transform\<close>

text \<open>
  numpy does not raise on the square root of a negative number or on a division by zero:
  it warns and returns not-a-number or an infinity. The sign of a zero is not modelled.
\<close>

datatype npf = Fin real | PInf | NInf | NaN

fun np_neg :: "npf \<Rightarrow> npf" where
  "np_neg (Fin x) = Fin (- x)"
| "np_neg PInf = NInf"
| "np_neg NInf = PInf"
| "np_neg NaN = NaN"

fun np_add :: "npf \<Rightarrow> npf \<Rightarrow> npf" where
  "np_add (Fin x) (Fin y) = Fin (x + y)"
| "np_add NaN y = NaN"
| "np_add x NaN = NaN"
| "np_add PInf NInf = NaN"
| "np_add NInf PInf = NaN"
| "np_add PInf y = PInf"
| "np_add x PInf = PInf"
| "np_add NInf y = NInf"
| "np_add x NInf = NInf"

definition np_sub :: "npf \<Rightarrow> npf \<Rightarrow> npf" where
  "np_sub x y = np_add x (np_neg y)"

text \<open>\<^verbatim>\<open>x**2\<close>.\<close>

fun np_square :: "npf \<Rightarrow> npf" where
  "np_square (Fin x) = Fin (x\<^sup>2)"
| "np_square PInf = PInf"
| "np_square NInf = PInf"
| "np_square NaN = NaN"

fun np_div :: "npf \<Rightarrow> npf \<Rightarrow> npf" where
  "np_div (Fin x) (Fin y) =
     (if y \<noteq> 0 then Fin (x / y)
      else if 0 < x then PInf else if x < 0 then NInf else NaN)"
| "np_div NaN y = NaN"
| "np_div x NaN = NaN"
| "np_div (Fin x) y = Fin 0"
| "np_div PInf (Fin y) = (if 0 \<le> y then PInf else NInf)"
| "np_div NInf (Fin y) = (if 0 \<le> y then NInf else PInf)"
| "np_div x y = NaN"

fun np_sqrt :: "npf \<Rightarrow> npf" where
  "np_sqrt (Fin x) = (if x < 0 then NaN else Fin (sqrt x))"
| "np_sqrt PInf = PInf"
| "np_sqrt NInf = NaN"
| "np_sqrt NaN = NaN"

text \<open>\<^verbatim>\<open>np.min([x, y])\<close> and \<^verbatim>\<open>np.max([x, y])\<close>: not-a-number wins.\<close>

fun np_min :: "npf \<Rightarrow> npf \<Rightarrow> npf" where
  "np_min (Fin x) (Fin y) = Fin (min x y)"
| "np_min NaN y = NaN"
| "np_min x NaN = NaN"
| "np_min NInf y = NInf"
| "np_min x NInf = NInf"
| "np_min PInf y = y"
| "np_min x PInf = x"

fun np_max :: "npf \<Rightarrow> npf \<Rightarrow> npf" where
  "np_max (Fin x) (Fin y) = Fin (max x y)"
| "np_max NaN y = NaN"
| "np_max x NaN = NaN"
| "np_max PInf y = PInf"
| "np_max x PInf = PInf"
| "np_max NInf y = y"
| "np_max x NInf = x"

definition is_finite :: "npf \<Rightarrow> bool" where
  "is_finite v = (case v of Fin x \<Rightarrow> True | _ \<Rightarrow> False)"

text \<open>
  \<^verbatim>\<open>np.allclose(angles, [90, 90, 90])\<close> with numpy's default tolerances
  \<^verbatim>\<open>rtol=1e-05\<close>, \<^verbatim>\<open>atol=1e-08\<close>: every \<open>|a - 90| \<le> atol + rtol * |90|\<close>.
\<close>

definition np_isclose :: "real \<Rightarrow> real \<Rightarrow> bool" where
  "np_isclose a b = (\<bar>a - b\<bar> \<le> 1 / 10 ^ 8 + 1 / 10 ^ 5 * \<bar>b\<bar>)"

definition allclose_90 :: "real \<times> real \<times> real \<Rightarrow> bool" where
  "allclose_90 ang =
     (case ang of (al, be, ga) \<Rightarrow> np_isclose al 90 \<and> np_isclose be 90 \<and> np_isclose ga 90)"

definition radians :: "real \<Rightarrow> real" where
  "radians x = x * pi / 180"

subsection \<open>The written lines\<close>

text \<open>
  One constructor for each format of a \<^verbatim>\<open>data.write\<close> call, with the arguments of
  \<^verbatim>\<open>format\<close>:
  \<^item> \<open>Title f\<close>: \<^verbatim>\<open>filename+' - created by mBuild\n\n'\<close> (line 275);
  \<^item> \<open>Count n w\<close>: \<^verbatim>\<open>'{:d} w\n'\<close> for \<open>w\<close> one of atoms, bonds, angles, dihedrals,
    impropers and the five words ending in types (lines 276-292);
  \<^item> \<open>Blank\<close>: \<^verbatim>\<open>'\n'\<close> (line 295);
  \<^item> \<open>BoxOrtho lo hi d\<close>: \<^verbatim>\<open>'{0:.6f} {1:.6f} {2}lo {2}hi\n'\<close> (line 299);
  \<^item> \<open>BoxBound d lo hi\<close>: \<^verbatim>\<open>'{0:.6f} {1:.6f} dlo dhi\n'\<close> (lines 326-331);
  \<^item> \<open>BoxTilt xy xz yz\<close>: \<^verbatim>\<open>'{0:.6f} {1:.6f} {2:6f} xy xz yz\n'\<close> (line 332);
  \<^item> \<open>Section t\<close>: a section heading, \<open>t\<close> being its text without the line breaks;
  \<^item> \<open>Comment t\<close>: a line of column titles under a heading, starting with \<^verbatim>\<open>#\<close>;
  \<^item> the remaining constructors: one data row each, named after its section.
\<close>

datatype line =
    Title string
  | Count nat string
  | Blank
  | BoxOrtho real real string
  | BoxBound string npf npf
  | BoxTilt npf npf npf
  | Section string
  | Comment string
  | MassRow nat real string
  | PairIJRow nat nat real real string string
  | PairRowPlain nat real real
  | PairRow nat real real string
  | BondCoeffRow nat real real string string
  | AngleCoeffCharmmRow nat real real real real
  | AngleCoeffHarmonicRow nat real real string string string
  | DihedralCoeffOplsRow nat real real real real string string string string
  | DihedralCoeffCharmmRow nat real int int real string string string string
  | ImproperCoeffRow nat real real string string string string
  | AtomAtomic nat nat real real real
  | AtomCharge nat nat real real real real
  | AtomMolecular nat nat nat real real real
  | AtomFull nat nat nat real real real real
  | BondRow nat nat nat nat
  | AngleRow nat nat nat nat nat
  | DihedralRow nat nat nat nat nat nat
  | ImproperRow nat nat nat nat nat nat

text \<open>
  What a run of writes leaves behind: the lines written, and the exception that ended
  the run, if any.
\<close>

type_synonym emit = "line list \<times> error option"

definition wr :: "line list \<Rightarrow> emit" where
  "wr ls = (ls, None)"

definition raise :: "error \<Rightarrow> emit" where
  "raise e = ([], Some e)"

definition then_emit :: "emit \<Rightarrow> emit \<Rightarrow> emit" where
  "then_emit p q = (case snd p of None \<Rightarrow> (fst p @ fst q, snd q) | Some e \<Rightarrow> p)"

definition emit_all :: "emit list \<Rightarrow> emit" where
  "emit_all ps = foldr then_emit ps (wr [])"

text \<open>A loop that writes one row per element and stops at the first exception.\<close>

fun emit_each :: "('a \<Rightarrow> error + line) \<Rightarrow> 'a list \<Rightarrow> emit" where
  "emit_each f [] = wr []"
| "emit_each f (x # xs) =
     (case f x of Inl e \<Rightarrow> raise e | Inr l \<Rightarrow> then_emit (wr [l]) (emit_each f xs))"

definition bindE :: "error + 'a \<Rightarrow> ('a \<Rightarrow> error + 'b) \<Rightarrow> error + 'b" where
  "bindE m f = (case m of Inl e \<Rightarrow> Inl e | Inr x \<Rightarrow> f x)"

definition after :: "error + 'a \<Rightarrow> ('a \<Rightarrow> emit) \<Rightarrow> emit" where
  "after m f = (case m of Inl e \<Rightarrow> raise e | Inr x \<Rightarrow> f x)"

subsection \<open>Atom types, styles and index lists (lines 108-165)\<close>

definition types_of :: "bool \<Rightarrow> structure \<Rightarrow> string list" where
  "types_of forcefield s =
     (if forcefield then map atype (atoms s) else map name (atoms s))"

text \<open>Lines 113-114: \<^verbatim>\<open>list(set(types))\<close>, then a stable sort by the natural key.\<close>

definition unique_types :: "set_order \<Rightarrow> string list \<Rightarrow> string list" where
  "unique_types so types = sort_key natural_sort (types_order so types)"

text \<open>
  Lines 121-140: the three style flags \<open>(use_urey_bradleys, use_rb_torsions,
  use_dihedrals)\<close> after the detection.
\<close>

definition detect_styles :: "config \<Rightarrow> structure \<Rightarrow> bool \<times> bool \<times> bool" where
  "detect_styles cfg s =
     (if detect_forcefield_style cfg
      then (0 < length (urey_bradleys s), 0 < length (rb_torsions s), 0 < length (dihedrals s))
      else (use_urey_bradleys cfg, use_rb_torsions cfg, use_dihedrals cfg))"

definition bond_indices :: "structure \<Rightarrow> (nat \<times> nat) list" where
  "bond_indices s = map (\<lambda>b. (idx (b_atom1 b) + 1, idx (b_atom2 b) + 1)) (bonds s)"

definition angle_indices :: "structure \<Rightarrow> (nat \<times> nat \<times> nat) list" where
  "angle_indices s =
     map (\<lambda>a. (idx (a_atom1 a) + 1, idx (a_atom2 a) + 1, idx (a_atom3 a) + 1)) (angles s)"

text \<open>Lines 150-161; the list of dihedrals is read before \<^verbatim>\<open>join_dihedrals\<close> runs.\<close>

definition dihedral_indices :: "bool \<Rightarrow> bool \<Rightarrow> structure \<Rightarrow> (nat \<times> nat \<times> nat \<times> nat) list" where
  "dihedral_indices rb dih s =
     (if rb then map (\<lambda>d. (idx (rb_atom1 d) + 1, idx (rb_atom2 d) + 1,
                            idx (rb_atom3 d) + 1, idx (rb_atom4 d) + 1)) (rb_torsions s)
      else if dih then map (\<lambda>d. (idx (d_atom1 d) + 1, idx (d_atom2 d) + 1,
                                  idx (d_atom3 d) + 1, idx (d_atom4 d) + 1)) (dihedrals s)
      else [])"

definition improper_indices :: "structure \<Rightarrow> (nat \<times> nat \<times> nat \<times> nat) list" where
  "improper_indices s =
     map (\<lambda>i. (idx (i_atom1 i) + 1, idx (i_atom2 i) + 1,
                idx (i_atom3 i) + 1, idx (i_atom4 i) + 1)) (impropers s)"

subsection \<open>The type tables (lines 169-272)\<close>

datatype angle_table =
    HarmonicAngles "(angle_key \<times> nat) list"
  | CharmmAngles "(charmm_angle_key \<times> nat) list"

datatype dihedral_table =
    OplsDihedrals "(rb_key \<times> nat) list"
  | CharmmDihedrals "(charmm_dihedral_key \<times> nat) list"

text \<open>
  The local variables after line 272. A table that was never assigned is \<open>None\<close>;
  a list of assigned IDs that was never assigned is \<open>[]\<close> and is not read.
\<close>

record tables =
  unique_bond_types :: "(bond_key \<times> nat) list option"
  assigned_bond_types :: "nat list"
  unique_angle_types :: "angle_table option"
  assigned_angle_types :: "nat list"
  unique_dihedral_types :: "dihedral_table option"
  assigned_dihedral_types :: "nat list"
  unique_improper_types :: "(improper_key \<times> nat) list option"
  assigned_improper_types :: "nat list"

text \<open>Lines 169-181. With an empty table of bond types every bond gets the ID 1.\<close>

definition bond_part :: "set_order \<Rightarrow> structure \<Rightarrow> error + (bond_key \<times> nat) list option \<times> nat list" where
  "bond_part so s =
     (if bond_indices s = [] then Inr (None, [])
      else if length (bond_types s) = 0 then Inr (None, replicate (length (bond_indices s)) 1)
      else bindE (assign_ids (bond_order so) (mapE bond_key (bonds s)))
             (\<lambda>(unique, ids). Inr (Some unique, ids)))"

text \<open>Lines 183-215.\<close>

definition angle_part :: "set_order \<Rightarrow> structure \<Rightarrow> bool \<Rightarrow> error + angle_table option \<times> nat list" where
  "angle_part so s ub =
     (if angle_indices s = [] then Inr (None, [])
      else if ub
      then bindE (assign_ids (charmm_angle_order so)
                    (mapE (charmm_angle_key (urey_bradleys s)) (angles s)))
             (\<lambda>(unique, ids). Inr (Some (CharmmAngles unique), ids))
      else bindE (assign_ids (angle_order so) (mapE angle_key (angles s)))
             (\<lambda>(unique, ids). Inr (Some (HarmonicAngles unique), ids)))"

text \<open>
  Lines 217-261. Under the CHARMM style the keys are those of the joined dihedrals, one
  per term, while the list of dihedrals to be written was taken before the join.
\<close>

definition dihedral_part ::
  "collaborators \<Rightarrow> structure \<Rightarrow> bool \<Rightarrow> bool \<Rightarrow> error + dihedral_table option \<times> nat list" where
  "dihedral_part env s rb dih =
     (if dihedral_indices rb dih s = [] then Inr (None, [])
      else if rb
      then bindE (assign_ids (rb_order (orders env)) (mapE rb_key (rb_torsions s)))
             (\<lambda>(unique, ids). Inr (Some (OplsDihedrals unique), ids))
      else if dih
      then bindE (assign_ids (charmm_dihedral_order (orders env))
                    (bindE (mapE charmm_dihedral_keys (join_dihedrals env (dihedrals s)))
                       (\<lambda>kss. Inr (concat kss))))
             (\<lambda>(unique, ids). Inr (Some (CharmmDihedrals unique), ids))
      else Inr (None, []))"

text \<open>Lines 263-272.\<close>

definition improper_part ::
  "set_order \<Rightarrow> structure \<Rightarrow> error + (improper_key \<times> nat) list option \<times> nat list" where
  "improper_part so s =
     (if improper_indices s = [] then Inr (None, [])
      else bindE (assign_ids (improper_order so) (mapE improper_key (impropers s)))
             (\<lambda>(unique, ids). Inr (Some unique, ids)))"

definition build_tables :: "collaborators \<Rightarrow> structure \<Rightarrow> bool \<Rightarrow> bool \<Rightarrow> bool \<Rightarrow> error + tables" where
  "build_tables env s ub rb dih =
     bindE (bond_part (orders env) s) (\<lambda>(b_unique, b_ids).
     bindE (angle_part (orders env) s ub) (\<lambda>(a_unique, a_ids).
     bindE (dihedral_part env s rb dih) (\<lambda>(d_unique, d_ids).
     bindE (improper_part (orders env) s) (\<lambda>(i_unique, i_ids).
       Inr \<lparr>unique_bond_types = b_unique, assigned_bond_types = b_ids,
            unique_angle_types = a_unique, assigned_angle_types = a_ids,
            unique_dihedral_types = d_unique, assigned_dihedral_types = d_ids,
            unique_improper_types = i_unique, assigned_improper_types = i_ids\<rparr>))))"

subsection \<open>The header (lines 275-295)\<close>

definition is_molecular :: "config \<Rightarrow> bool" where
  "is_molecular cfg = (atom_style cfg \<in> set [''full'', ''molecular''])"

definition header_lines :: "config \<Rightarrow> structure \<Rightarrow> bool \<Rightarrow> bool \<Rightarrow> string list \<Rightarrow> tables \<Rightarrow> line list" where
  "header_lines cfg s rb dih types tb =
     [Title (filename cfg), Count (length (atoms s)) ''atoms'']
     @ (if is_molecular cfg
        then [Count (length (bond_indices s)) ''bonds'',
              Count (length (angle_indices s)) ''angles'',
              Count (length (dihedral_indices rb dih s)) ''dihedrals'',
              Count (length (improper_indices s)) ''impropers'']
        else [])
     @ [Count (len_set types) ''atom types'']
     @ (if is_molecular cfg
        then (if bond_indices s \<noteq> []
              then [Count (len_set (assigned_bond_types tb)) ''bond types''] else [])
           @ (if angle_indices s \<noteq> []
              then [Count (len_set (assigned_angle_types tb)) ''angle types''] else [])
           @ (if dihedral_indices rb dih s \<noteq> []
              then [Count (len_set (assigned_dihedral_types tb)) ''dihedral types''] else [])
           @ (if improper_indices s \<noteq> []
              then [Count (len_set (assigned_improper_types tb)) ''improper types''] else [])
        else [])
     @ [Blank]"

subsection \<open>The box (lines 74-75 and 297-333)\<close>

text \<open>
  Lines 304-333, for the lengths and minimum corner of the \<^verbatim>\<open>Box\<close> in nm. The
  \<^verbatim>\<open>Box\<close> is built at line 74, where a structure without a box has already raised;
  \<open>box_lines\<close> is reached with a box only.
\<close>

definition triclinic_lines ::
  "real \<times> real \<times> real \<Rightarrow> real \<times> real \<times> real \<Rightarrow> real \<times> real \<times> real \<Rightarrow> line list" where
  "triclinic_lines lengths angs mins =
     (case lengths of (l1, l2, l3) \<Rightarrow>
      case angs of (al, be, ga) \<Rightarrow>
      case mins of (m1, m2, m3) \<Rightarrow>
        let a = 10 * l1; b = 10 * l2; c = 10 * l3;
            alpha = radians al; beta = radians be; gamma = radians ga;
            lx = a;
            xy = b * cos gamma;
            xz = c * cos beta;
            ly = np_sqrt (Fin (b\<^sup>2 - xy\<^sup>2));
            yz = np_div (Fin (b * c * cos alpha - xy * xz)) ly;
            lz = np_sqrt (np_sub (Fin (c\<^sup>2 - xz\<^sup>2)) (np_square yz));
            xlo = 10 * m1; ylo = 10 * m2; zlo = 10 * m3;
            xhi = xlo + lx;
            yhi = np_add (Fin ylo) ly;
            zhi = np_add (Fin zlo) lz;
            xlo_bound = xlo + min 0 (min xy (min xz (xy + xz)));
            xhi_bound = xhi + max 0 (max xy (max xz (xy + xz)));
            ylo_bound = np_add (Fin ylo) (np_min (Fin 0) yz);
            yhi_bound = np_add yhi (np_max (Fin 0) yz);
            zlo_bound = Fin zlo;
            zhi_bound = zhi
        in [BoxBound ''x'' (Fin xlo_bound) (Fin xhi_bound),
            BoxBound ''y'' ylo_bound yhi_bound,
            BoxBound ''z'' zlo_bound zhi_bound,
            BoxTilt (Fin xy) (Fin xz) yz])"

definition box_lines :: "collaborators \<Rightarrow> structure \<Rightarrow> line list" where
  "box_lines env s =
     (case box s of
        None \<Rightarrow> []
      | Some ((b0, b1, b2), angs) \<Rightarrow>
        let lengths = (0.1 * b0, 0.1 * b1, 0.1 * b2);
            mins = Box_mins env lengths;
            maxs = Box_maxs env lengths
        in if allclose_90 angs
           then (case mins of (m1, m2, m3) \<Rightarrow>
                 case maxs of (x1, x2, x3) \<Rightarrow>
                   [BoxOrtho (10 * m1) (10 * x1) ''x'',
                    BoxOrtho (10 * m2) (10 * x2) ''y'',
                    BoxOrtho (10 * m3) (10 * x3) ''z''])
           else triclinic_lines lengths angs mins)"

subsection \<open>Masses (lines 336-341)\<close>

text \<open>
  \<^verbatim>\<open>dict([(unique_types.index(t)+1, v) for t, v in zip(types, values)])\<close>: the
  pattern of \<^verbatim>\<open>mass_dict\<close>, \<^verbatim>\<open>epsilon_dict\<close>, \<^verbatim>\<open>sigma_dict\<close> and
  \<^verbatim>\<open>forcefield_dict\<close>. The value of a type is that of its last atom.
\<close>

definition type_dict :: "string list \<Rightarrow> string list \<Rightarrow> 'v list \<Rightarrow> error + (nat \<times> 'v) list" where
  "type_dict uts types vals =
     bindE (mapE (\<lambda>(t, v). bindE (py_index uts t) (\<lambda>i. Inr (i + 1, v))) (zip types vals))
       (\<lambda>ps. Inr (py_dict ps))"

definition masses_emit :: "string list \<Rightarrow> string list \<Rightarrow> structure \<Rightarrow> emit" where
  "masses_emit uts types s =
     after (type_dict uts types (map mass (atoms s))) (\<lambda>mass_dict.
       then_emit (wr [Section ''Masses''])
         (emit_each (\<lambda>(atom_type, m).
              bindE (py_nth uts (atom_type - 1)) (\<lambda>label. Inr (MassRow atom_type m label)))
            mass_dict))"

subsection \<open>Pair coefficients (lines 345-416)\<close>

text \<open>
  Lines 358-366: the keys of the explicit cross terms, each sorted as a pair of strings;
  a later entry with the same sorted key replaces the earlier one (the warnings are
  not modelled).
\<close>

definition sorted_nbfix ::
  "((string \<times> string) \<times> (real \<times> real)) list \<Rightarrow> ((string \<times> string) \<times> (real \<times> real)) list" where
  "sorted_nbfix nb =
     foldl (\<lambda>d (key, val). AList.update (sorted_pair (fst key) (snd key)) val d) [] nb"

text \<open>\<^verbatim>\<open>itertools.combinations_with_replacement(xs, 2)\<close>.\<close>

fun combinations_with_replacement2 :: "'a list \<Rightarrow> ('a \<times> 'a) list" where
  "combinations_with_replacement2 [] = []"
| "combinations_with_replacement2 (x # xs) =
     map (Pair x) (x # xs) @ combinations_with_replacement2 xs"

text \<open>
  \<^verbatim>\<open>x ** 0.5\<close> on a Python 3 float: a negative \<open>x\<close> gives a complex number, which
  \<^verbatim>\<open>round\<close> then refuses with \<^verbatim>\<open>TypeError\<close>.
\<close>

definition pow_half :: "real \<Rightarrow> error + real" where
  "pow_half x = (if x < 0 then Inl TypeError else Inr (sqrt x))"

text \<open>
  Lines 372-394: the entry of \<^verbatim>\<open>coeffs\<close> for one pair of type labels. \<open>nb\<close> is the
  table of cross terms with sorted keys.
\<close>

definition pair_coeff ::
  "string list \<Rightarrow> ((string \<times> string) \<times> (real \<times> real)) list \<Rightarrow> string \<Rightarrow>
   (nat \<times> real) list \<Rightarrow> (nat \<times> real) list \<Rightarrow> string \<times> string \<Rightarrow>
   error + (nat \<times> nat) \<times> (real \<times> real)" where
  "pair_coeff uts nb rule sigma_dict epsilon_dict combo =
     (case map_of nb combo of
        Some (rmin, eps) \<Rightarrow>
          bindE (py_index uts (fst combo)) (\<lambda>i1.
          bindE (py_index uts (snd combo)) (\<lambda>i2.
            Inr ((i1 + 1, i2 + 1), (py_round 8 (rmin / root 6 2), py_round 8 eps))))
      | None \<Rightarrow>
          bindE (py_index uts (fst combo)) (\<lambda>i1.
          bindE (py_index uts (snd combo)) (\<lambda>i2.
            let type1 = i1 + 1; type2 = i2 + 1
            in if type1 = type2
               then bindE (dict_get sigma_dict type1) (\<lambda>sig.
                    bindE (dict_get epsilon_dict type1) (\<lambda>eps.
                      Inr ((type1, type2), (py_round 8 sig, py_round 8 eps))))
               else bindE
                      (if rule = ''lorentz''
                       then bindE (dict_get sigma_dict type1) (\<lambda>s1.
                            bindE (dict_get sigma_dict type2) (\<lambda>s2. Inr ((s1 + s2) * 0.5)))
                       else if rule = ''geometric''
                       then bindE (dict_get sigma_dict type1) (\<lambda>s1.
                            bindE (dict_get sigma_dict type2) (\<lambda>s2. pow_half (s1 * s2)))
                       else Inl UnsupportedCombiningRule)
                      (\<lambda>sig.
                    bindE (dict_get epsilon_dict type1) (\<lambda>e1.
                    bindE (dict_get epsilon_dict type2) (\<lambda>e2.
                    bindE (pow_half (e1 * e2)) (\<lambda>eps.
                      Inr ((type1, type2), (py_round 8 sig, py_round 8 eps)))))))))"

text \<open>Lines 369-394: the dictionary \<^verbatim>\<open>coeffs\<close>.\<close>

definition pair_coeffs ::
  "string list \<Rightarrow> ((string \<times> string) \<times> (real \<times> real)) list \<Rightarrow> string \<Rightarrow>
   (nat \<times> real) list \<Rightarrow> (nat \<times> real) list \<Rightarrow> error + ((nat \<times> nat) \<times> (real \<times> real)) list" where
  "pair_coeffs uts nbfix rule sigma_dict epsilon_dict =
     bindE (mapE (pair_coeff uts (sorted_nbfix nbfix) rule sigma_dict epsilon_dict)
              (combinations_with_replacement2 uts))
       (\<lambda>ps. Inr (py_dict ps))"

text \<open>
  Lines 345-416. Without \<^verbatim>\<open>nbfix_in_data_file\<close> the cross terms are printed to the
  standard output, which is not the written file.
\<close>

definition pair_emit :: "config \<Rightarrow> structure \<Rightarrow> string list \<Rightarrow> string list \<Rightarrow> emit" where
  "pair_emit cfg s uts types =
     after (type_dict uts types (map epsilon (atoms s))) (\<lambda>epsilon_dict.
     after (type_dict uts types (map sigma (atoms s))) (\<lambda>sigma_dict.
     after (type_dict uts types (map atype (atoms s))) (\<lambda>forcefield_dict.
       if has_NBFIX s
       then after (pair_coeffs uts (nbfix_types s) (combining_rule s) sigma_dict epsilon_dict)
              (\<lambda>coeffs.
                if nbfix_in_data_file cfg
                then then_emit
                       (wr [Section ''PairIJ Coeffs # modified lj'',
                            Comment ''# type1 type2 epsilon (kcal/mol) sigma (Angstrom)''])
                       (emit_each (\<lambda>((type1, type2), (sig, eps)).
                            bindE (dict_get forcefield_dict type1) (\<lambda>f1.
                            bindE (dict_get forcefield_dict type2) (\<lambda>f2.
                              Inr (PairIJRow type1 type2 eps sig f1 f2))))
                          coeffs)
                else then_emit (wr [Section ''Pair Coeffs # lj''])
                       (emit_each (\<lambda>(i, eps).
                            bindE (dict_get sigma_dict i) (\<lambda>sig. Inr (PairRowPlain i eps sig)))
                          epsilon_dict))
       else then_emit
              (wr [Section ''Pair Coeffs # lj'',
                   Comment ''# epsilon (kcal/mol) sigma (Angstrom)''])
              (emit_each (\<lambda>(i, eps).
                   bindE (dict_get sigma_dict i) (\<lambda>sig.
                   bindE (dict_get forcefield_dict i) (\<lambda>f. Inr (PairRow i eps sig f))))
                 epsilon_dict))))"

subsection \<open>Bonded coefficients (lines 418-475)\<close>

text \<open>
  Reading \<^verbatim>\<open>unique_bond_types\<close> when it was never assigned raises \<^verbatim>\<open>NameError\<close>,
  after the heading of the section has been written.
\<close>

definition bond_coeffs_emit :: "structure \<Rightarrow> tables \<Rightarrow> emit" where
  "bond_coeffs_emit s tb =
     (if bond_indices s \<noteq> []
      then then_emit
             (wr [Section ''Bond Coeffs # harmonic'',
                  Comment ''# k(kcal/mol/angstrom^2) req(angstrom)''])
             (case unique_bond_types tb of
                None \<Rightarrow> raise NameError
              | Some unique \<Rightarrow>
                  wr (map (\<lambda>((k, req, (t1, t2)), i). BondCoeffRow i k req t1 t2) unique))
      else wr [])"

definition angle_rows :: "angle_table option \<Rightarrow> emit" where
  "angle_rows table =
     (case table of
        None \<Rightarrow> raise NameError
      | Some (CharmmAngles unique) \<Rightarrow>
          wr (map (\<lambda>((k, theteq, ub_k, ub_req, ends), i).
                     AngleCoeffCharmmRow i k theteq ub_k ub_req) unique)
      | Some (HarmonicAngles unique) \<Rightarrow>
          wr (map (\<lambda>((k, theteq, vertex, (t1, t3)), i).
                     AngleCoeffHarmonicRow i k theteq t1 vertex t3) unique))"

definition angle_coeffs_emit :: "structure \<Rightarrow> bool \<Rightarrow> tables \<Rightarrow> emit" where
  "angle_coeffs_emit s ub tb =
     (if angle_indices s \<noteq> []
      then then_emit
             (if ub
              then wr [Section ''Angle Coeffs # charmm'',
                       Comment ''# k(kcal/mol/rad^2) theteq(deg) k(kcal/mol/angstrom^2) req(angstrom)'']
              else wr [Section ''Angle Coeffs # harmonic'',
                       Comment ''# k(kcal/mol/rad^2) theteq(deg)''])
             (angle_rows (unique_angle_types tb))
      else wr [])"

definition dihedral_rows :: "collaborators \<Rightarrow> dihedral_table option \<Rightarrow> emit" where
  "dihedral_rows env table =
     (case table of
        None \<Rightarrow> raise NameError
      | Some (OplsDihedrals unique) \<Rightarrow>
          wr (map (\<lambda>((p0, p1, p2, p3, p4, p5, scee, scnb, t1, t2, t3, t4), i).
                     case RB_to_OPLS env p0 p1 p2 p3 p4 p5 of (f1, f2, f3, f4) \<Rightarrow>
                       DihedralCoeffOplsRow i f1 f2 f3 f4 t1 t2 t3 t4) unique)
      | Some (CharmmDihedrals unique) \<Rightarrow>
          wr (map (\<lambda>((k, n, phi, weight, scee, scnb, t1, t2, t3, t4), i).
                     DihedralCoeffCharmmRow i k n phi weight t1 t2 t3 t4) unique))"

definition dihedral_coeffs_emit ::
  "collaborators \<Rightarrow> structure \<Rightarrow> bool \<Rightarrow> bool \<Rightarrow> tables \<Rightarrow> emit" where
  "dihedral_coeffs_emit env s rb dih tb =
     (if dihedral_indices rb dih s \<noteq> []
      then (if rb
            then then_emit
                   (wr [Section ''Dihedral Coeffs # opls'',
                        Comment ''# f1(kcal/mol) f2(kcal/mol) f3(kcal/mol) f4(kcal/mol)''])
                   (dihedral_rows env (unique_dihedral_types tb))
            else if dih
            then then_emit
                   (wr [Section ''Dihedral Coeffs # charmm'', Comment ''#k, n, phi, weight''])
                   (dihedral_rows env (unique_dihedral_types tb))
            else wr [])
      else wr [])"

definition improper_coeffs_emit :: "structure \<Rightarrow> tables \<Rightarrow> emit" where
  "improper_coeffs_emit s tb =
     (if improper_indices s \<noteq> []
      then then_emit
             (wr [Section ''Improper Coeffs # harmonic'', Comment ''#k, psi''])
             (case unique_improper_types tb of
                None \<Rightarrow> raise NameError
              | Some unique \<Rightarrow>
                  wr (map (\<lambda>((k, psi, t1, t2, t3, t4), i).
                             ImproperCoeffRow i k psi t1 t2 t3 t4) unique))
      else wr [])"

text \<open>Lines 343-475, written only when the first atom has a type label.\<close>

definition forcefield_emit ::
  "collaborators \<Rightarrow> config \<Rightarrow> structure \<Rightarrow> bool \<Rightarrow> bool \<Rightarrow> bool \<Rightarrow>
   string list \<Rightarrow> string list \<Rightarrow> tables \<Rightarrow> emit" where
  "forcefield_emit env cfg s ub rb dih uts types tb =
     emit_all [pair_emit cfg s uts types,
               bond_coeffs_emit s tb,
               angle_coeffs_emit s ub tb,
               dihedral_coeffs_emit env s rb dih tb,
               improper_coeffs_emit s tb]"

subsection \<open>Atoms and bonded terms (lines 477-522)\<close>

text \<open>
  Lines 479-486: the row of one atom in the layout of the atom style. For any other
  style \<^verbatim>\<open>atom_line\<close> would be unbound.
\<close>

definition atom_row :: "string \<Rightarrow> nat \<Rightarrow> nat \<Rightarrow> atom \<Rightarrow> error + line" where
  "atom_row style index type_index a =
     (if style = ''atomic''
      then Inr (AtomAtomic index type_index (coord_x a) (coord_y a) (coord_z a))
      else if style = ''charge''
      then Inr (AtomCharge index type_index (charge a) (coord_x a) (coord_y a) (coord_z a))
      else if style = ''molecular''
      then Inr (AtomMolecular index 0 type_index (coord_x a) (coord_y a) (coord_z a))
      else if style = ''full''
      then Inr (AtomFull index 0 type_index (charge a) (coord_x a) (coord_y a) (coord_z a))
      else Inl NameError)"

definition atoms_emit :: "config \<Rightarrow> structure \<Rightarrow> string list \<Rightarrow> string list \<Rightarrow> emit" where
  "atoms_emit cfg s uts types =
     then_emit (wr [Section ''Atoms''])
       (emit_each (\<lambda>(i, (a, t)).
            bindE (py_index uts t) (\<lambda>ti. atom_row (atom_style cfg) (i + 1) (ti + 1) a))
          (enumerate 0 (zip (atoms s) types)))"

text \<open>
  Lines 494-522. Every row reads \<^verbatim>\<open>types[i]\<close> at the position \<open>i\<close> of the instance,
  which raises \<^verbatim>\<open>IndexError\<close> when the list of assigned IDs is shorter than the list
  of instances. The atoms of an improper are written in the order 3, 2, 1, 4.
\<close>

definition bonded_emit :: "config \<Rightarrow> structure \<Rightarrow> bool \<Rightarrow> bool \<Rightarrow> tables \<Rightarrow> emit" where
  "bonded_emit cfg s rb dih tb =
     (if is_molecular cfg
      then emit_all
        [if bond_indices s \<noteq> []
         then then_emit (wr [Section ''Bonds''])
                (emit_each (\<lambda>(i, (b0, b1)).
                     bindE (py_nth (assigned_bond_types tb) i) (\<lambda>t. Inr (BondRow (i + 1) t b0 b1)))
                   (enumerate 0 (bond_indices s)))
         else wr [],
         if angle_indices s \<noteq> []
         then then_emit (wr [Section ''Angles''])
                (emit_each (\<lambda>(i, (a0, a1, a2)).
                     bindE (py_nth (assigned_angle_types tb) i)
                       (\<lambda>t. Inr (AngleRow (i + 1) t a0 a1 a2)))
                   (enumerate 0 (angle_indices s)))
         else wr [],
         if dihedral_indices rb dih s \<noteq> []
         then then_emit (wr [Section ''Dihedrals''])
                (emit_each (\<lambda>(i, (d0, d1, d2, d3)).
                     bindE (py_nth (assigned_dihedral_types tb) i)
                       (\<lambda>t. Inr (DihedralRow (i + 1) t d0 d1 d2 d3)))
                   (enumerate 0 (dihedral_indices rb dih s)))
         else wr [],
         if improper_indices s \<noteq> []
         then then_emit (wr [Section ''Impropers''])
                (emit_each (\<lambda>(i, (i0, i1, i2, i3)).
                     bindE (py_nth (assigned_improper_types tb) i)
                       (\<lambda>t. Inr (ImproperRow (i + 1) t i2 i1 i0 i3)))
                   (enumerate 0 (improper_indices s)))
         else wr []]
      else wr [])"

subsection \<open>The writer\<close>

text \<open>Lines 274-522: everything written while the file is open.\<close>

definition file_emit ::
  "collaborators \<Rightarrow> config \<Rightarrow> structure \<Rightarrow> bool \<Rightarrow> bool \<Rightarrow> bool \<Rightarrow> bool \<Rightarrow>
   string list \<Rightarrow> string list \<Rightarrow> tables \<Rightarrow> emit" where
  "file_emit env cfg s forcefield ub rb dih uts types tb =
     emit_all [wr (header_lines cfg s rb dih types tb),
               wr (box_lines env s),
               masses_emit uts types s,
               if forcefield then forcefield_emit env cfg s ub rb dih uts types tb else wr [],
               atoms_emit cfg s uts types,
               bonded_emit cfg s rb dih tb]"

text \<open>
  \<^verbatim>\<open>write_lammpsdata\<close>. The result is the content of the file (\<open>None\<close> when the file
  was never opened) and the exception that ended the call, if any. An exception raised
  while the file is open leaves what was written before it. Before the file is opened
  the source checks the atom style (lines 64-65), reads the first atom (line 70,
  \<^verbatim>\<open>IndexError\<close> without atoms) and the box (line 74, \<^verbatim>\<open>TypeError\<close> without a box),
  settles the styles (lines 121-143) and builds the tables (lines 169-272).
\<close>

definition write_lammpsdata ::
  "collaborators \<Rightarrow> structure \<Rightarrow> config \<Rightarrow> line list option \<times> error option" where
  "write_lammpsdata env s cfg =
     (if atom_style cfg \<notin> set [''atomic'', ''charge'', ''molecular'', ''full'']
      then (None, Some (InvalidAtomStyle (atom_style cfg)))
      else (case atoms s of
              [] \<Rightarrow> (None, Some IndexError)
            | first # rest \<Rightarrow>
                (case box s of
                   None \<Rightarrow> (None, Some TypeError)
                 | Some bx \<Rightarrow>
                     let forcefield = (atype first \<noteq> []);
                         types = types_of forcefield s;
                         uts = unique_types (orders env) types
                     in case detect_styles cfg s of (ub, rb, dih) \<Rightarrow>
                          if rb \<and> dih then (None, Some MultipleDihedralStyles)
                          else (case build_tables env s ub rb dih of
                                  Inl e \<Rightarrow> (None, Some e)
                                | Inr tb \<Rightarrow>
                                    (case file_emit env cfg s forcefield ub rb dih uts types tb of
                                       (ls, e) \<Rightarrow> (Some ls, e))))))"

subsection \<open>Which exceptions a run can end with\<close>

text \<open>
  The exceptions that building the tables can raise, those that the writes can raise,
  and the statement that a run of writes ends with no exception or with one of a kind.
\<close>

definition table_error :: "error \<Rightarrow> bool" where
  "table_error e = (e \<in> set [AttributeError, KeyError, TypeError, ZeroDivisionError])"

definition emit_error :: "error \<Rightarrow> bool" where
  "emit_error e = (e \<in> set [NotInList, IndexError, KeyError, NameError, TypeError, UnsupportedCombiningRule])"

definition raises_only :: "(error \<Rightarrow> bool) \<Rightarrow> emit \<Rightarrow> bool" where
  "raises_only P em = (case snd em of None \<Rightarrow> True | Some e \<Rightarrow> P e)"

subsection \<open>Which lines a run can write\<close>

text \<open>
  The lines that are neither a count of the header nor a row of the Bonds section, and
  the statement that a run of writes has written lines of one kind only.
\<close>

definition other_line :: "line \<Rightarrow> bool" where
  "other_line l = (case l of Count n w \<Rightarrow> False | BondRow i t a b \<Rightarrow> False | _ \<Rightarrow> True)"

definition writes_only :: "(line \<Rightarrow> bool) \<Rightarrow> emit \<Rightarrow> bool" where
  "writes_only P em = list_all P (fst em)"

definition bond_rows_of_type_1 :: "line \<Rightarrow> bool" where
  "bond_rows_of_type_1 l =
     (case l of Count n w \<Rightarrow> False | BondRow i t a b \<Rightarrow> t = 1 | _ \<Rightarrow> True)"

subsection \<open>Example inputs\<close>

definition mk_atom :: "nat \<Rightarrow> string \<Rightarrow> atom" where
  "mk_atom i t =
     \<lparr>idx = i, atype = t, name = t, charge = 0, mass = 1, sigma = 1, epsilon = 1,
      coord_x = 0, coord_y = 0, coord_z = 0\<rparr>"

text \<open>
  An angle H-C-H and one Urey-Bradley term over its end atoms, stored in the order of
  the angle (\<open>ex_ub\<close>) or in the reversed order (\<open>ex_ub_reversed\<close>).
\<close>

definition ex_angle :: angle where
  "ex_angle =
     \<lparr>a_atom1 = mk_atom 0 ''H'', a_atom2 = mk_atom 1 ''C'', a_atom3 = mk_atom 2 ''H'',
      a_type = Some \<lparr>at_k = 35, at_theteq = 109\<rparr>\<rparr>"

definition ex_ub :: urey_bradley where
  "ex_ub =
     \<lparr>ub_atom1 = mk_atom 0 ''H'', ub_atom2 = mk_atom 2 ''H'',
      ub_type = Some \<lparr>bt_k = 5, bt_req = 2\<rparr>\<rparr>"

definition ex_ub_reversed :: urey_bradley where
  "ex_ub_reversed =
     \<lparr>ub_atom1 = mk_atom 2 ''H'', ub_atom2 = mk_atom 0 ''H'',
      ub_type = Some \<lparr>bt_k = 5, bt_req = 2\<rparr>\<rparr>"

text \<open>
  Two iteration orders for sets, both visiting every element once: the order of
  \<open>remdups\<close>, and its reverse.
\<close>

definition forward_orders :: set_order where
  "forward_orders =
     \<lparr>types_order = remdups, bond_order = remdups, angle_order = remdups,
      charmm_angle_order = remdups, rb_order = remdups, charmm_dihedral_order = remdups,
      improper_order = remdups\<rparr>"

definition backward_orders :: set_order where
  "backward_orders =
     \<lparr>types_order = rev \<circ> remdups, bond_order = rev \<circ> remdups,
      angle_order = rev \<circ> remdups, charmm_angle_order = rev \<circ> remdups,
      rb_order = rev \<circ> remdups, charmm_dihedral_order = rev \<circ> remdups,
      improper_order = rev \<circ> remdups\<rparr>"

text \<open>
  Collaborators for the examples: dihedrals that are joined already (so that
  \<^verbatim>\<open>join_dihedrals\<close> changes nothing), the usual conversion of Ryckaert-Bellemans
  coefficients, and a box with its minimum corner at the origin.
\<close>

definition ex_env :: "set_order \<Rightarrow> collaborators" where
  "ex_env so =
     \<lparr>orders = so, join_dihedrals = (\<lambda>ds. ds),
      RB_to_OPLS = (\<lambda>c0 c1 c2 c3 c4 c5. (- 3 / 2 * c3 - 2 * c1, c0 + c1 + c3, - c3 / 2, - c4 / 4)),
      Box_mins = (\<lambda>l. (0, 0, 0)), Box_maxs = (\<lambda>l. l)\<rparr>"

definition ex_cfg :: "string \<Rightarrow> config" where
  "ex_cfg style =
     \<lparr>filename = ''out.lammps'', atom_style = style, detect_forcefield_style = True,
      nbfix_in_data_file = True, use_urey_bradleys = False, use_rb_torsions = True,
      use_dihedrals = False\<rparr>"

text \<open>A structure of atoms only, in a cubic box.\<close>

definition ex_atoms :: "atom list \<Rightarrow> structure" where
  "ex_atoms as =
     \<lparr>atoms = as, bonds = [], angles = [], urey_bradleys = [], rb_torsions = [],
      dihedrals = [], impropers = [], bond_types = [],
      box = Some ((10, 10, 10), (90, 90, 90)), combining_rule = ''lorentz'',
      has_NBFIX = False,
      nbfix_types = []\<rparr>"

text \<open>
  Three atom types, an explicit cross term for the pair A-B only, and a combining rule
  that is neither lorentz nor geometric.
\<close>

definition ex_unsupported :: "structure" where
  "ex_unsupported =
     (ex_atoms [mk_atom 0 ''A'', mk_atom 1 ''B'', mk_atom 2 ''C''])
       \<lparr>combining_rule := ''foo'', has_NBFIX := True,
        nbfix_types := [((''A'', ''B''), (1.2, 2.1))]\<rparr>"

text \<open>
  Four atoms carrying one Ryckaert-Bellemans torsion and one dihedral with a single
  term.
\<close>

definition ex_rb_type :: rb_torsion_type where
  "ex_rb_type =
     \<lparr>c0 = 1, c1 = 2, c2 = 0, c3 = - 4, c4 = 0, c5 = 0, rb_scee = 1, rb_scnb = 1\<rparr>"

definition ex_dihedral_type :: dihedral_type where
  "ex_dihedral_type = \<lparr>phi_k = 1, per = 3, phase = 0, dt_scee = 1, dt_scnb = 1\<rparr>"

definition ex_four :: "atom list" where
  "ex_four = [mk_atom 0 ''H'', mk_atom 1 ''C'', mk_atom 2 ''C'', mk_atom 3 ''H'']"

definition ex_both :: "structure" where
  "ex_both =
     (ex_atoms ex_four)
       \<lparr>rb_torsions :=
          [\<lparr>rb_atom1 = mk_atom 0 ''H'', rb_atom2 = mk_atom 1 ''C'', rb_atom3 = mk_atom 2 ''C'',
            rb_atom4 = mk_atom 3 ''H'', rb_type = Some ex_rb_type\<rparr>],
        dihedrals :=
          [\<lparr>d_atom1 = mk_atom 0 ''H'', d_atom2 = mk_atom 1 ''C'', d_atom3 = mk_atom 2 ''C'',
            d_atom4 = mk_atom 3 ''H'', d_improper = False,
            d_type = Some [ex_dihedral_type]\<rparr>]\<rparr>"

text \<open>One atom of type A in a box with the given lengths and angles.\<close>

definition ex_box :: "(real \<times> real \<times> real) \<times> (real \<times> real \<times> real) \<Rightarrow> structure" where
  "ex_box bx = (ex_atoms [mk_atom 0 ''A'']) \<lparr>box := Some bx\<rparr>"

text \<open>
  Three boxes of side 10: one with an angle within the tolerance of 90 degrees, one
  tilted by a 60 degree angle, and one whose angles 30, 30, 90 no cell can have.
\<close>

definition box_near_90 :: "(real \<times> real \<times> real) \<times> (real \<times> real \<times> real)" where
  "box_near_90 = ((10, 10, 10), (90.0005, 90, 90))"

definition box_60 :: "(real \<times> real \<times> real) \<times> (real \<times> real \<times> real)" where
  "box_60 = ((10, 10, 10), (90, 90, 60))"

definition box_30 :: "(real \<times> real \<times> real) \<times> (real \<times> real \<times> real)" where
  "box_30 = ((10, 10, 10), (30, 30, 90))"

text \<open>The tables of a structure without bonded terms.\<close>

definition no_tables :: tables where
  "no_tables =
     \<lparr>unique_bond_types = None, assigned_bond_types = [],
      unique_angle_types = None, assigned_angle_types = [],
      unique_dihedral_types = None, assigned_dihedral_types = [],
      unique_improper_types = None, assigned_improper_types = []\<rparr>"

text \<open>
  Two atoms without type labels and one bond between them; neither the bond nor the
  structure carries bond parameters.
\<close>

definition ex_untyped_bond :: "structure" where
  "ex_untyped_bond =
     (ex_atoms [(mk_atom 0 ''C'')\<lparr>atype := []\<rparr>, (mk_atom 1 ''H'')\<lparr>atype := []\<rparr>])
       \<lparr>bonds := [\<lparr>b_atom1 = (mk_atom 0 ''C'')\<lparr>atype := []\<rparr>,
                   b_atom2 = (mk_atom 1 ''H'')\<lparr>atype := []\<rparr>, b_type = None\<rparr>]\<rparr>"

text \<open>The tables of a structure whose only bonded term is one bond without parameters.\<close>

definition one_bond_tables :: tables where
  "one_bond_tables = no_tables \<lparr>assigned_bond_types := [1]\<rparr>"

section \<open>Properties\<close>

subsection \<open>Rounding\<close>

lemma py_round_zero: "py_round n 0 = 0"
  by (simp add: py_round_def)

lemma py_round_of_int: "py_round n (of_int i) = of_int i"
proof -
  have "(of_int i :: real) * 10 ^ n = of_int (i * 10 ^ n)" by simp
  then have "\<lfloor>(of_int i :: real) * 10 ^ n\<rfloor> = i * 10 ^ n"
    by (metis floor_of_int)
  then show ?thesis by (simp add: py_round_def)
qed

subsection \<open>Exceptions of the tables and of the writes\<close>

lemma bindE_InlE:
  assumes "bindE m f = Inl e"
  obtains "m = Inl e" | x where "m = Inr x" "f x = Inl e"
  using assms by (cases m) (auto simp: bindE_def)

lemma mapE_InlE:
  assumes "mapE f xs = Inl e"
  obtains x where "x \<in> set xs" "f x = Inl e"
  using assms
  by (induction xs arbitrary: thesis) (auto split: sum.splits)

lemma py_index_Inl: "py_index xs x = Inl e \<Longrightarrow> e = NotInList"
proof -
  have "index_from n xs x = Inl e \<Longrightarrow> e = NotInList" for n
    by (induction xs arbitrary: n) (auto split: if_splits)
  then show "py_index xs x = Inl e \<Longrightarrow> e = NotInList" by (simp add: py_index_def)
qed

lemma py_nth_Inl: "py_nth xs i = Inl e \<Longrightarrow> e = IndexError"
  by (auto simp: py_nth_def split: if_splits)

lemma dict_get_Inl: "dict_get d k = Inl e \<Longrightarrow> e = KeyError"
  by (auto simp: dict_get_def split: option.splits)

lemma pow_half_Inl: "pow_half x = Inl e \<Longrightarrow> e = TypeError"
  by (auto simp: pow_half_def split: if_splits)

lemma snd_then_emit:
  "snd (then_emit p q) = Some e \<Longrightarrow> snd p = Some e \<or> (snd p = None \<and> snd q = Some e)"
  by (auto simp: then_emit_def split: option.splits)

lemma snd_emit_each:
  "snd (emit_each f xs) = Some e \<Longrightarrow> \<exists>x \<in> set xs. f x = Inl e"
  by (induction xs) (auto simp: wr_def raise_def then_emit_def split: sum.splits option.splits)

lemma snd_after:
  "snd (after m f) = Some e \<Longrightarrow> m = Inl e \<or> (\<exists>x. m = Inr x \<and> snd (f x) = Some e)"
  by (cases m) (auto simp: after_def raise_def)

lemma snd_wr [simp]: "snd (wr ls) = None" by (simp add: wr_def)
lemma fst_wr [simp]: "fst (wr ls) = ls" by (simp add: wr_def)
lemma snd_raise [simp]: "snd (raise e) = Some e" by (simp add: raise_def)

lemma snd_emit_all:
  "snd (emit_all ps) = Some e \<Longrightarrow> \<exists>p \<in> set ps. snd p = Some e"
  unfolding emit_all_def
  by (induction ps) (auto dest: snd_then_emit)

lemma lookup_ids_Inl: "lookup_ids u ks = Inl e \<Longrightarrow> e = KeyError"
  by (auto simp: lookup_ids_def elim!: mapE_InlE split: option.splits)

lemma assign_ids_Inl:
  "assign_ids order keys = Inl e \<Longrightarrow> keys = Inl e \<or> e = KeyError"
  by (auto simp: assign_ids_def Let_def dest: lookup_ids_Inl split: sum.splits)

lemma bond_key_Inl: "bond_key b = Inl e \<Longrightarrow> e = AttributeError"
  by (auto simp: bond_key_def split: option.splits)
lemma angle_key_Inl: "angle_key b = Inl e \<Longrightarrow> e = AttributeError"
  by (auto simp: angle_key_def split: option.splits)
lemma rb_key_Inl: "rb_key b = Inl e \<Longrightarrow> e = AttributeError"
  by (auto simp: rb_key_def split: option.splits)
lemma improper_key_Inl: "improper_key b = Inl e \<Longrightarrow> e = AttributeError"
  by (auto simp: improper_key_def split: option.splits)
lemma ub_scan_Inl: "ub_scan a ubs acc = Inl e \<Longrightarrow> e = AttributeError"
  by (induction ubs arbitrary: acc) (auto split: if_splits option.splits)
lemma charmm_angle_key_Inl: "charmm_angle_key ubs a = Inl e \<Longrightarrow> e = AttributeError"
  by (auto simp: charmm_angle_key_def dest: ub_scan_Inl split: sum.splits option.splits)
lemma charmm_dihedral_keys_Inl:
  "charmm_dihedral_keys d = Inl e \<Longrightarrow> e = TypeError \<or> e = ZeroDivisionError"
  by (auto simp: charmm_dihedral_keys_def split: if_splits option.splits)

lemma bond_part_Inl: "bond_part so s = Inl e \<Longrightarrow> table_error e"
  by (auto simp: bond_part_def table_error_def split: if_splits
           elim!: bindE_InlE mapE_InlE dest!: assign_ids_Inl bond_key_Inl)

lemma angle_part_Inl: "angle_part so s ub = Inl e \<Longrightarrow> table_error e"
  by (auto simp: angle_part_def table_error_def split: if_splits
           elim!: bindE_InlE mapE_InlE dest!: assign_ids_Inl angle_key_Inl charmm_angle_key_Inl)

lemma dihedral_part_Inl: "dihedral_part env s rb dih = Inl e \<Longrightarrow> table_error e"
  by (auto simp: dihedral_part_def table_error_def split: if_splits
           elim!: bindE_InlE mapE_InlE dest!: assign_ids_Inl rb_key_Inl charmm_dihedral_keys_Inl)

lemma improper_part_Inl: "improper_part so s = Inl e \<Longrightarrow> table_error e"
  by (auto simp: improper_part_def table_error_def split: if_splits
           elim!: bindE_InlE mapE_InlE dest!: assign_ids_Inl improper_key_Inl)

lemma build_tables_Inl: "build_tables env s ub rb dih = Inl e \<Longrightarrow> table_error e"
  by (auto simp: build_tables_def elim!: bindE_InlE
           dest: bond_part_Inl angle_part_Inl dihedral_part_Inl improper_part_Inl)

lemma raises_onlyD: "raises_only P em \<Longrightarrow> snd em = Some e \<Longrightarrow> P e"
  by (simp add: raises_only_def)

lemma raises_only_wr [intro!, simp]: "raises_only P (wr ls)"
  by (simp add: raises_only_def wr_def)

lemma raises_only_raise [intro!]: "P e \<Longrightarrow> raises_only P (raise e)"
  by (simp add: raises_only_def raise_def)

lemma raises_only_then [intro!]:
  "raises_only P p \<Longrightarrow> raises_only P q \<Longrightarrow> raises_only P (then_emit p q)"
  by (auto simp: raises_only_def then_emit_def split: option.splits)

lemma emit_all_Nil: "emit_all [] = wr []"
  by (simp add: emit_all_def)

lemma emit_all_Cons: "emit_all (p # ps) = then_emit p (emit_all ps)"
  by (simp add: emit_all_def)

lemma raises_only_each [intro!]:
  "(\<And>x e. x \<in> set xs \<Longrightarrow> f x = Inl e \<Longrightarrow> P e) \<Longrightarrow> raises_only P (emit_each f xs)"
  by (induction xs) (auto split: sum.splits)

lemma raises_only_after [intro!]:
  "(\<And>e. m = Inl e \<Longrightarrow> P e) \<Longrightarrow> (\<And>x. m = Inr x \<Longrightarrow> raises_only P (f x)) \<Longrightarrow>
   raises_only P (after m f)"
  by (cases m) (auto simp: after_def)

lemma raises_only_if [intro!]:
  "(c \<Longrightarrow> raises_only P p) \<Longrightarrow> (\<not> c \<Longrightarrow> raises_only P q) \<Longrightarrow>
   raises_only P (if c then p else q)"
  by simp

lemma raises_only_mono:
  "raises_only P em \<Longrightarrow> (\<And>e. P e \<Longrightarrow> Q e) \<Longrightarrow> raises_only Q em"
  by (auto simp: raises_only_def split: option.splits)

lemma type_dict_Inl: "type_dict uts types vals = Inl e \<Longrightarrow> e = NotInList"
  by (auto simp: type_dict_def elim!: bindE_InlE mapE_InlE dest: py_index_Inl)

lemma masses_emit_raises:
  "raises_only (\<lambda>e. e = NotInList \<or> e = IndexError) (masses_emit uts types s)"
  unfolding masses_emit_def
  by (intro raises_only_after raises_only_then raises_only_each raises_only_wr)
     (auto dest: type_dict_Inl py_nth_Inl elim!: bindE_InlE)

lemma pair_coeff_Inl:
  "pair_coeff uts nb rule sd ed combo = Inl e \<Longrightarrow> emit_error e"
  by (auto simp: pair_coeff_def emit_error_def Let_def split: option.splits if_splits
           elim!: bindE_InlE dest: py_index_Inl dict_get_Inl pow_half_Inl)

lemma pair_coeffs_Inl:
  "pair_coeffs uts nbfix rule sd ed = Inl e \<Longrightarrow> emit_error e"
  by (auto simp: pair_coeffs_def elim!: bindE_InlE mapE_InlE dest: pair_coeff_Inl)

lemma emit_error_simps [simp]:
  "emit_error NotInList" "emit_error IndexError" "emit_error KeyError" "emit_error NameError"
  "emit_error TypeError" "emit_error UnsupportedCombiningRule"
  "\<not> emit_error (InvalidAtomStyle x)" "\<not> emit_error MultipleDihedralStyles"
  by (simp_all add: emit_error_def)

lemma pair_emit_raises: "raises_only emit_error (pair_emit cfg s uts types)"
  unfolding pair_emit_def
  by (intro raises_only_after raises_only_then raises_only_each raises_only_wr raises_only_if)
     (auto dest: type_dict_Inl pair_coeffs_Inl dict_get_Inl elim!: bindE_InlE)

lemma bond_coeffs_emit_raises: "raises_only emit_error (bond_coeffs_emit s tb)"
  unfolding bond_coeffs_emit_def by (auto split: option.splits)

lemma angle_coeffs_emit_raises: "raises_only emit_error (angle_coeffs_emit s ub tb)"
  unfolding angle_coeffs_emit_def angle_rows_def
  by (auto split: option.splits angle_table.splits)

lemma dihedral_coeffs_emit_raises: "raises_only emit_error (dihedral_coeffs_emit env s rb dih tb)"
  unfolding dihedral_coeffs_emit_def dihedral_rows_def
  by (auto split: option.splits dihedral_table.splits)

lemma improper_coeffs_emit_raises: "raises_only emit_error (improper_coeffs_emit s tb)"
  unfolding improper_coeffs_emit_def by (auto split: option.splits)

lemma forcefield_emit_raises:
  "raises_only emit_error (forcefield_emit env cfg s ub rb dih uts types tb)"
  unfolding forcefield_emit_def emit_all_Cons emit_all_Nil
  by (intro raises_only_then raises_only_wr pair_emit_raises bond_coeffs_emit_raises
        angle_coeffs_emit_raises dihedral_coeffs_emit_raises improper_coeffs_emit_raises)

lemma atom_row_Inl: "atom_row style i ti a = Inl e \<Longrightarrow> e = NameError"
  by (auto simp: atom_row_def split: if_splits)

lemma atoms_emit_raises: "raises_only emit_error (atoms_emit cfg s uts types)"
  unfolding atoms_emit_def
  by (intro raises_only_then raises_only_each raises_only_wr)
     (auto elim!: bindE_InlE dest: py_index_Inl atom_row_Inl)

lemma bonded_emit_raises: "raises_only emit_error (bonded_emit cfg s rb dih tb)"
  unfolding bonded_emit_def emit_all_Cons emit_all_Nil
  by (intro raises_only_if raises_only_then raises_only_each raises_only_wr)
     (auto elim!: bindE_InlE dest!: py_nth_Inl)

lemma file_emit_raises:
  "raises_only emit_error (file_emit env cfg s ff ub rb dih uts types tb)"
proof -
  have "raises_only emit_error (masses_emit uts types s)"
    by (rule raises_only_mono [OF masses_emit_raises]) auto
  then show ?thesis
    unfolding file_emit_def emit_all_Cons emit_all_Nil
    by (intro raises_only_if raises_only_then raises_only_wr forcefield_emit_raises
          atoms_emit_raises bonded_emit_raises)
qed

subsection \<open>The Urey-Bradley term of an angle\<close>

lemma ub_scan_no_match:
  "filter (\<lambda>ub. (ub_atom1 ub, ub_atom2 ub) = (a_atom1 a, a_atom3 a)) ubs = [] \<Longrightarrow>
   ub_scan a ubs acc = Inr acc"
  by (induction ubs arbitrary: acc) (auto split: if_splits)

lemma ub_scan_last_match:
  "filter (\<lambda>ub. (ub_atom1 ub, ub_atom2 ub) = (a_atom1 a, a_atom3 a)) ubs \<noteq> [] \<Longrightarrow>
   \<forall>ub \<in> set ubs. ub_type ub \<noteq> None \<Longrightarrow>
   ub_scan a ubs acc =
     Inr (bt_k (the (ub_type (last (filter (\<lambda>ub. (ub_atom1 ub, ub_atom2 ub) = (a_atom1 a, a_atom3 a)) ubs)))),
          bt_req (the (ub_type (last (filter (\<lambda>ub. (ub_atom1 ub, ub_atom2 ub) = (a_atom1 a, a_atom3 a)) ubs)))))"
proof (induction ubs arbitrary: acc)
  case Nil
  then show ?case by simp
next
  case (Cons ub ubs)
  let ?m = "\<lambda>ub. (ub_atom1 ub, ub_atom2 ub) = (a_atom1 a, a_atom3 a)"
  show ?case
  proof (cases "filter ?m ubs = []")
    case True
    with Cons.prems have m: "?m ub" by (auto split: if_splits)
    from Cons.prems obtain t where t: "ub_type ub = Some t" by auto
    from True have "ub_scan a ubs (bt_k t, bt_req t) = Inr (bt_k t, bt_req t)"
      by (rule ub_scan_no_match)
    with m t True show ?thesis by auto
  next
    case False
    from Cons.prems obtain t where t: "ub_type ub = Some t" by auto
    from Cons.prems have all: "\<forall>ub \<in> set ubs. ub_type ub \<noteq> None" by simp
    note ih = Cons.IH [OF False all]
    from False t ih show ?thesis by auto
  qed
qed

text \<open>
  C9. Under the Urey-Bradley style the key of a parametrised angle is computed whenever
  every Urey-Bradley term is parametrised, and it holds, rounded to three decimals, the
  \<open>k\<close> and \<open>req\<close> of the last Urey-Bradley term whose \<open>(atom1, atom2)\<close> equals the
  angle's \<open>(atom1, atom3)\<close>. When no term matches in that order (a term over the same
  two atoms in the reversed order does not match) both fields are zero.
\<close>

theorem charmm_angle_key_urey_bradley:
  assumes "a_type a = Some t"
    and "\<forall>ub \<in> set ubs. ub_type ub \<noteq> None"
  shows "\<exists>ub_k ub_req.
           charmm_angle_key ubs a =
             Inr (py_round 3 (at_k t), py_round 3 (at_theteq t), py_round 3 ub_k, py_round 3 ub_req,
                  sorted_pair (atype (a_atom1 a)) (atype (a_atom3 a))) \<and>
           (case filter (\<lambda>ub. (ub_atom1 ub, ub_atom2 ub) = (a_atom1 a, a_atom3 a)) ubs of
              [] \<Rightarrow> ub_k = 0 \<and> ub_req = 0 \<and> py_round 3 ub_k = 0 \<and> py_round 3 ub_req = 0
            | m # ms \<Rightarrow> ub_type (last (m # ms)) = Some \<lparr>bt_k = ub_k, bt_req = ub_req\<rparr>)"
proof (cases "filter (\<lambda>ub. (ub_atom1 ub, ub_atom2 ub) = (a_atom1 a, a_atom3 a)) ubs")
  case Nil
  then have "ub_scan a ubs (0, 0) = Inr (0, 0)" by (rule ub_scan_no_match)
  with Nil assms(1) show ?thesis
    by (simp add: charmm_angle_key_def py_round_zero)
next
  case (Cons m ms)
  let ?l = "last (m # ms)"
  have "?l \<in> set (m # ms)" by (rule last_in_set) simp
  moreover have "set (m # ms) \<subseteq> set ubs"
    unfolding Cons [symmetric] by (rule filter_is_subset)
  ultimately have "?l \<in> set ubs" by blast
  with assms(2) obtain bt where bt: "ub_type ?l = Some bt" by auto
  from Cons have ne: "filter (\<lambda>ub. (ub_atom1 ub, ub_atom2 ub) = (a_atom1 a, a_atom3 a)) ubs \<noteq> []"
    by simp
  from ub_scan_last_match [OF ne assms(2), of "(0, 0)"] Cons bt
  have "ub_scan a ubs (0, 0) = Inr (bt_k bt, bt_req bt)" by simp
  with Cons assms(1) bt show ?thesis
    by (intro exI [of _ "bt_k bt"] exI [of _ "bt_req bt"]) (simp add: charmm_angle_key_def)
qed

theorem charmm_angle_key_urey_bradley_witness:
  "a_type ex_angle = Some \<lparr>at_k = 35, at_theteq = 109\<rparr> \<and>
   ub_type ex_ub_reversed \<noteq> None \<and> ub_type ex_ub \<noteq> None \<and>
   charmm_angle_key [ex_ub_reversed, ex_ub] ex_angle = Inr (35, 109, 5, 2, (''H'', ''H'')) \<and>
   charmm_angle_key [ex_ub_reversed] ex_angle = Inr (35, 109, 0, 0, (''H'', ''H''))"
proof -
  have r: "py_round 3 35 = 35" "py_round 3 109 = 109" "py_round 3 5 = 5" "py_round 3 2 = 2"
    using py_round_of_int [of 3 35] py_round_of_int [of 3 109]
      py_round_of_int [of 3 5] py_round_of_int [of 3 2] by simp_all
  have t: "a_type ex_angle = Some \<lparr>at_k = 35, at_theteq = 109\<rparr>"
    by (simp add: ex_angle_def)
  have u1: "\<forall>ub \<in> set [ex_ub_reversed, ex_ub]. ub_type ub \<noteq> None"
    by (simp add: ex_ub_def ex_ub_reversed_def)
  have u2: "\<forall>ub \<in> set [ex_ub_reversed]. ub_type ub \<noteq> None"
    by (simp add: ex_ub_reversed_def)
  from charmm_angle_key_urey_bradley [OF t u1]
  have k1: "charmm_angle_key [ex_ub_reversed, ex_ub] ex_angle = Inr (35, 109, 5, 2, (''H'', ''H''))"
    by (auto simp: r ex_angle_def ex_ub_def ex_ub_reversed_def mk_atom_def sorted_pair_def)
  from charmm_angle_key_urey_bradley [OF t u2]
  have k2: "charmm_angle_key [ex_ub_reversed] ex_angle = Inr (35, 109, 0, 0, (''H'', ''H''))"
    by (auto simp: r ex_angle_def ex_ub_reversed_def mk_atom_def sorted_pair_def)
  from u1 have u: "ub_type ex_ub_reversed \<noteq> None" "ub_type ex_ub \<noteq> None"
    by simp_all
  from t u k1 k2 show ?thesis by blast
qed

subsection \<open>Validation errors and the file\<close>

lemma then_emit_wr: "then_emit (wr ls) q = (ls @ fst q, snd q)"
  by (simp add: then_emit_def wr_def)

lemma masses_emit_heading:
  "snd (masses_emit uts types s) = None \<Longrightarrow> Section ''Masses'' \<in> set (fst (masses_emit uts types s))"
  by (cases "type_dict uts types (map mass (atoms s))")
     (auto simp: masses_emit_def after_def raise_def then_emit_wr)

lemma write_lammpsdata_invalid_style:
  assumes "atom_style cfg \<notin> set [''atomic'', ''charge'', ''molecular'', ''full'']"
  shows "write_lammpsdata env s cfg = (None, Some (InvalidAtomStyle (atom_style cfg)))"
  using assms unfolding write_lammpsdata_def by (simp only: if_True not_False_eq_True)

lemma write_lammpsdata_no_atoms:
  assumes "atom_style cfg \<in> set [''atomic'', ''charge'', ''molecular'', ''full'']"
    and "atoms s = []"
  shows "write_lammpsdata env s cfg = (None, Some IndexError)"
proof -
  from assms(1) have "(atom_style cfg \<notin> set [''atomic'', ''charge'', ''molecular'', ''full'']) = False"
    by blast
  then show ?thesis
    unfolding write_lammpsdata_def by (simp only: if_False assms(2) list.case)
qed

lemma write_lammpsdata_no_box:
  assumes "atom_style cfg \<in> set [''atomic'', ''charge'', ''molecular'', ''full'']"
    and "atoms s = first # others"
    and "box s = None"
  shows "write_lammpsdata env s cfg = (None, Some TypeError)"
proof -
  from assms(1) have "(atom_style cfg \<notin> set [''atomic'', ''charge'', ''molecular'', ''full'']) = False"
    by blast
  then show ?thesis
    unfolding write_lammpsdata_def by (simp only: if_False assms(2,3) list.case option.case)
qed

lemma write_lammpsdata_valid:
  assumes "atom_style cfg \<in> set [''atomic'', ''charge'', ''molecular'', ''full'']"
    and "atoms s = first # others"
    and "box s = Some bx"
    and "detect_styles cfg s = (ub, rb, dih)"
  shows "write_lammpsdata env s cfg =
    (if rb \<and> dih then (None, Some MultipleDihedralStyles)
     else (case build_tables env s ub rb dih of
             Inl e \<Rightarrow> (None, Some e)
           | Inr tb \<Rightarrow>
               (case file_emit env cfg s (atype first \<noteq> []) ub rb dih
                       (unique_types (orders env) (types_of (atype first \<noteq> []) s))
                       (types_of (atype first \<noteq> []) s) tb of
                  (ls, e) \<Rightarrow> (Some ls, e))))"
proof -
  from assms(1) have "(atom_style cfg \<notin> set [''atomic'', ''charge'', ''molecular'', ''full'']) = False"
    by blast
  then show ?thesis
    unfolding write_lammpsdata_def
    by (simp only: if_False assms(2,3,4) list.case option.case Let_def prod.case not_True_eq_False)
qed

lemma write_lammpsdata_cases:
  obtains
    (style) "atom_style cfg \<notin> set [''atomic'', ''charge'', ''molecular'', ''full'']"
      "write_lammpsdata env s cfg = (None, Some (InvalidAtomStyle (atom_style cfg)))"
  | (no_atoms) "atoms s = []" "write_lammpsdata env s cfg = (None, Some IndexError)"
  | (no_box) "box s = None" "write_lammpsdata env s cfg = (None, Some TypeError)"
  | (conflict) "write_lammpsdata env s cfg = (None, Some MultipleDihedralStyles)"
  | (tables) e ub rb dih where "build_tables env s ub rb dih = Inl e"
      "write_lammpsdata env s cfg = (None, Some e)"
  | (opened) first others bx ub rb dih tb ls e where
      "atoms s = first # others" "box s = Some bx" "detect_styles cfg s = (ub, rb, dih)"
      "build_tables env s ub rb dih = Inr tb"
      "file_emit env cfg s (atype first \<noteq> []) ub rb dih
         (unique_types (orders env) (types_of (atype first \<noteq> []) s))
         (types_of (atype first \<noteq> []) s) tb = (ls, e)"
      "write_lammpsdata env s cfg = (Some ls, e)"
proof (cases "atom_style cfg \<in> set [''atomic'', ''charge'', ''molecular'', ''full'']")
  case False
  then have "write_lammpsdata env s cfg = (None, Some (InvalidAtomStyle (atom_style cfg)))"
    by (rule write_lammpsdata_invalid_style)
  with False show ?thesis by (rule style)
next
  case st: True
  show ?thesis
  proof (cases "atoms s")
    case Nil
    with st have "write_lammpsdata env s cfg = (None, Some IndexError)"
      by (rule write_lammpsdata_no_atoms)
    with Nil show ?thesis by (rule no_atoms)
  next
    case (Cons first others)
    show ?thesis
    proof (cases "box s")
      case None
      with st Cons have "write_lammpsdata env s cfg = (None, Some TypeError)"
        by (rule write_lammpsdata_no_box)
      with None show ?thesis by (rule no_box)
    next
      case (Some bx)
      obtain ub rb dih where ds: "detect_styles cfg s = (ub, rb, dih)"
        by (cases "detect_styles cfg s") auto
      note w = write_lammpsdata_valid [OF st Cons Some ds, of env]
      show ?thesis
      proof (cases "rb \<and> dih")
        case True
        with w show ?thesis by (intro conflict) simp
      next
        case nc: False
        show ?thesis
        proof (cases "build_tables env s ub rb dih")
          case (Inl e)
          with w nc have "write_lammpsdata env s cfg = (None, Some e)" by simp
          with Inl show ?thesis by (rule tables)
        next
          case (Inr tb)
          let ?ff = "atype first \<noteq> []"
          obtain ls e where fe: "file_emit env cfg s ?ff ub rb dih
              (unique_types (orders env) (types_of ?ff s)) (types_of ?ff s) tb = (ls, e)"
            by (cases "file_emit env cfg s ?ff ub rb dih
              (unique_types (orders env) (types_of ?ff s)) (types_of ?ff s) tb") auto
          with w nc Inr have "write_lammpsdata env s cfg = (Some ls, e)" by simp
          with Cons Some ds Inr fe show ?thesis by (rule opened)
        qed
      qed
    qed
  qed
qed

lemma atoms_emit_raises_own:
  "raises_only (\<lambda>e. e = NotInList \<or> e = NameError) (atoms_emit cfg s uts types)"
  unfolding atoms_emit_def
  by (intro raises_only_then raises_only_each raises_only_wr)
     (auto elim!: bindE_InlE dest: py_index_Inl atom_row_Inl)

lemma bonded_emit_raises_own:
  "raises_only (\<lambda>e. e = IndexError) (bonded_emit cfg s rb dih tb)"
  unfolding bonded_emit_def emit_all_Cons emit_all_Nil
  by (intro raises_only_if raises_only_then raises_only_each raises_only_wr)
     (auto elim!: bindE_InlE dest!: py_nth_Inl)

lemma bond_coeffs_emit_name_error:
  "raises_only (\<lambda>e. e = NameError) (bond_coeffs_emit s tb)"
  unfolding bond_coeffs_emit_def by (auto split: option.splits)

lemma angle_coeffs_emit_name_error:
  "raises_only (\<lambda>e. e = NameError) (angle_coeffs_emit s ub tb)"
  unfolding angle_coeffs_emit_def angle_rows_def
  by (auto split: option.splits angle_table.splits)

lemma dihedral_coeffs_emit_name_error:
  "raises_only (\<lambda>e. e = NameError) (dihedral_coeffs_emit env s rb dih tb)"
  unfolding dihedral_coeffs_emit_def dihedral_rows_def
  by (auto split: option.splits dihedral_table.splits)

lemma improper_coeffs_emit_name_error:
  "raises_only (\<lambda>e. e = NameError) (improper_coeffs_emit s tb)"
  unfolding improper_coeffs_emit_def by (auto split: option.splits)

lemma coeffs_emit_raise_name_error:
  "raises_only (\<lambda>e. e = NameError)
     (emit_all [bond_coeffs_emit s tb, angle_coeffs_emit s ub tb,
                dihedral_coeffs_emit env s rb dih tb, improper_coeffs_emit s tb])"
  unfolding emit_all_Cons emit_all_Nil
  by (intro raises_only_then raises_only_wr bond_coeffs_emit_name_error
        angle_coeffs_emit_name_error dihedral_coeffs_emit_name_error
        improper_coeffs_emit_name_error)

lemma rows_raise_key_error:
  assumes "\<And>x e. f x = Inl e \<Longrightarrow> e = KeyError"
  shows "snd (then_emit (wr hs) (emit_each f xs)) \<noteq> Some UnsupportedCombiningRule"
proof -
  have "raises_only (\<lambda>e. e = KeyError) (then_emit (wr hs) (emit_each f xs))"
    by (intro raises_only_then raises_only_each raises_only_wr) (rule assms)
  from raises_onlyD [OF this] show ?thesis by auto
qed

lemma pair_emit_unsupported:
  assumes "snd (pair_emit cfg s uts types) = Some UnsupportedCombiningRule"
  shows "fst (pair_emit cfg s uts types) = []"
proof (cases "type_dict uts types (map epsilon (atoms s))")
  case (Inl e)
  then show ?thesis by (simp add: pair_emit_def after_def raise_def)
next
  case ed: (Inr epsilon_dict)
  show ?thesis
  proof (cases "type_dict uts types (map sigma (atoms s))")
    case (Inl e)
    with ed show ?thesis by (simp add: pair_emit_def after_def raise_def)
  next
    case sd: (Inr sigma_dict)
    show ?thesis
    proof (cases "type_dict uts types (map atype (atoms s))")
      case (Inl e)
      with ed sd show ?thesis by (simp add: pair_emit_def after_def raise_def)
    next
      case fd: (Inr forcefield_dict)
      show ?thesis
      proof (cases "has_NBFIX s")
        case False
        with ed sd fd have "pair_emit cfg s uts types =
            then_emit (wr [Section ''Pair Coeffs # lj'',
                           Comment ''# epsilon (kcal/mol) sigma (Angstrom)''])
              (emit_each (\<lambda>(i, eps).
                   bindE (dict_get sigma_dict i) (\<lambda>sig.
                   bindE (dict_get forcefield_dict i) (\<lambda>f. Inr (PairRow i eps sig f))))
                 epsilon_dict)"
          by (simp add: pair_emit_def after_def)
        moreover have "snd \<dots> \<noteq> Some UnsupportedCombiningRule"
          by (rule rows_raise_key_error) (auto elim!: bindE_InlE dest: dict_get_Inl)
        ultimately show ?thesis using assms by simp
      next
        case True
        show ?thesis
        proof (cases "pair_coeffs uts (nbfix_types s) (combining_rule s) sigma_dict epsilon_dict")
          case (Inl e)
          with ed sd fd True show ?thesis by (simp add: pair_emit_def after_def raise_def)
        next
          case (Inr coeffs)
          show ?thesis
          proof (cases "nbfix_in_data_file cfg")
            case inl: True
            with ed sd fd True Inr have "pair_emit cfg s uts types =
                then_emit
                  (wr [Section ''PairIJ Coeffs # modified lj'',
                       Comment ''# type1 type2 epsilon (kcal/mol) sigma (Angstrom)''])
                  (emit_each (\<lambda>((type1, type2), (sig, eps)).
                       bindE (dict_get forcefield_dict type1) (\<lambda>f1.
                       bindE (dict_get forcefield_dict type2) (\<lambda>f2.
                         Inr (PairIJRow type1 type2 eps sig f1 f2))))
                     coeffs)"
              by (simp add: pair_emit_def after_def)
            moreover have "snd \<dots> \<noteq> Some UnsupportedCombiningRule"
              by (rule rows_raise_key_error) (auto elim!: bindE_InlE dest: dict_get_Inl)
            ultimately show ?thesis using assms by simp
          next
            case False
            with ed sd fd True Inr have "pair_emit cfg s uts types =
                then_emit (wr [Section ''Pair Coeffs # lj''])
                  (emit_each (\<lambda>(i, eps).
                       bindE (dict_get sigma_dict i) (\<lambda>sig. Inr (PairRowPlain i eps sig)))
                     epsilon_dict)"
              by (simp add: pair_emit_def after_def)
            moreover have "snd \<dots> \<noteq> Some UnsupportedCombiningRule"
              by (rule rows_raise_key_error) (auto elim!: bindE_InlE dest: dict_get_Inl)
            ultimately show ?thesis using assms by simp
          qed
        qed
      qed
    qed
  qed
qed

lemma then_emit_fail: "snd p = Some e \<Longrightarrow> then_emit p q = p"
  by (simp add: then_emit_def)

lemma then_emit_pass: "snd p = None \<Longrightarrow> then_emit p q = (fst p @ fst q, snd q)"
  by (simp add: then_emit_def)

lemma then_emit_assoc: "then_emit (then_emit p q) r = then_emit p (then_emit q r)"
  by (simp add: then_emit_def split: option.splits)

lemma file_emit_unsupported:
  assumes "file_emit env cfg s ff ub rb dih uts types tb = (ls, Some UnsupportedCombiningRule)"
  shows "ff \<and> snd (masses_emit uts types s) = None \<and>
         ls = header_lines cfg s rb dih types tb @ box_lines env s @ fst (masses_emit uts types s)"
proof -
  let ?m = "masses_emit uts types s"
  let ?p = "pair_emit cfg s uts types"
  let ?c = "emit_all [bond_coeffs_emit s tb, angle_coeffs_emit s ub tb,
                      dihedral_coeffs_emit env s rb dih tb, improper_coeffs_emit s tb]"
  let ?f = "if ff then forcefield_emit env cfg s ub rb dih uts types tb else wr []"
  let ?t = "emit_all [atoms_emit cfg s uts types, bonded_emit cfg s rb dih tb]"
  have fe: "file_emit env cfg s ff ub rb dih uts types tb =
      then_emit (wr (header_lines cfg s rb dih types tb))
        (then_emit (wr (box_lines env s)) (then_emit ?m (then_emit ?f ?t)))"
    by (simp only: file_emit_def emit_all_Cons)
  have t: "raises_only (\<lambda>e. e \<noteq> UnsupportedCombiningRule) ?t"
    unfolding emit_all_Cons emit_all_Nil
    by (intro raises_only_then raises_only_wr
          raises_only_mono [OF atoms_emit_raises_own] raises_only_mono [OF bonded_emit_raises_own])
       auto
  from assms [unfolded fe then_emit_wr]
  have sn: "snd (then_emit ?m (then_emit ?f ?t)) = Some UnsupportedCombiningRule"
    and fs: "ls = header_lines cfg s rb dih types tb @ box_lines env s @
                  fst (then_emit ?m (then_emit ?f ?t))"
    by simp_all
  have m: "snd ?m = None"
  proof (cases "snd ?m")
    case None
    then show ?thesis .
  next
    case (Some e')
    with sn have "e' = UnsupportedCombiningRule"
      by (simp add: then_emit_fail)
    moreover from raises_onlyD [OF masses_emit_raises Some]
    have "e' = NotInList \<or> e' = IndexError" .
    ultimately show ?thesis by simp
  qed
  have ff: ff
  proof (rule ccontr)
    assume "\<not> ff"
    with sn m have "snd ?t = Some UnsupportedCombiningRule"
      by (simp add: then_emit_wr then_emit_pass)
    from raises_onlyD [OF t this] show False by simp
  qed
  then have f: "then_emit ?f ?t = then_emit ?p (then_emit ?c ?t)"
    by (simp add: forcefield_emit_def emit_all_Cons then_emit_assoc)
  have p: "snd ?p = Some UnsupportedCombiningRule"
  proof (cases "snd ?p")
    case None
    have "raises_only (\<lambda>e. e \<noteq> UnsupportedCombiningRule) (then_emit ?c ?t)"
      by (intro raises_only_then t raises_only_mono [OF coeffs_emit_raise_name_error]) simp
    moreover from sn m None have "snd (then_emit ?c ?t) = Some UnsupportedCombiningRule"
      by (simp add: f then_emit_pass)
    ultimately show ?thesis by (auto dest: raises_onlyD)
  next
    case (Some e')
    with sn m have "e' = UnsupportedCombiningRule"
      by (simp add: f then_emit_pass then_emit_fail)
    with Some show ?thesis by simp
  qed
  from pair_emit_unsupported [OF p] have "fst ?p = []" .
  with fs m p have "ls = header_lines cfg s rb dih types tb @ box_lines env s @ fst ?m"
    by (simp add: f then_emit_pass then_emit_fail)
  with ff m show ?thesis by simp
qed

text \<open>
  C3, as amended. A call that ends with the atom-style error or with the
  conflicting-dihedral-styles error has not opened the file. A call that ends with the
  unsupported-combining-rule error has opened it, for a structure with a box whose first
  atom has a type label and whose tables were built: the Masses section was written
  without an exception, its heading included, and the file holds exactly the header
  lines, the box lines and the lines of the Masses section, in this order.
\<close>

theorem validation_errors_and_output:
  assumes "write_lammpsdata env s cfg = (f, Some e)"
  shows "((\<exists>x. e = InvalidAtomStyle x) \<or> e = MultipleDihedralStyles \<longrightarrow> f = None) \<and>
         (e = UnsupportedCombiningRule \<longrightarrow>
            (\<exists>first others bx ub rb dih tb ms.
               atoms s = first # others \<and> atype first \<noteq> [] \<and> box s = Some bx \<and>
               detect_styles cfg s = (ub, rb, dih) \<and> build_tables env s ub rb dih = Inr tb \<and>
               masses_emit (unique_types (orders env) (types_of True s)) (types_of True s) s =
                 (ms, None) \<and>
               Section ''Masses'' \<in> set ms \<and>
               f = Some (header_lines cfg s rb dih (types_of True s) tb @ box_lines env s @ ms)))"
proof (cases rule: write_lammpsdata_cases [of cfg env s])
  case style
  with assms show ?thesis by auto
next
  case no_atoms
  with assms show ?thesis by auto
next
  case no_box
  with assms show ?thesis by auto
next
  case conflict
  with assms show ?thesis by auto
next
  case (tables e' ub rb dih)
  with assms have "f = None" "e = e'" by simp_all
  moreover from build_tables_Inl [OF tables(1)] have "table_error e'" .
  ultimately show ?thesis by (auto simp: table_error_def)
next
  case (opened first others bx ub rb dih tb ls e')
  let ?ff = "atype first \<noteq> []"
  let ?types = "types_of ?ff s"
  let ?uts = "unique_types (orders env) ?types"
  from opened(6) assms have r: "f = Some ls" "e' = Some e" by simp_all
  from raises_onlyD [OF file_emit_raises, of env cfg s ?ff ub rb dih ?uts ?types tb e] opened(5) r
  have "emit_error e" by simp
  then have 1: "\<not> (\<exists>x. e = InvalidAtomStyle x)" "e \<noteq> MultipleDihedralStyles" by auto
  have 2: "\<exists>first others bx ub rb dih tb ms.
               atoms s = first # others \<and> atype first \<noteq> [] \<and> box s = Some bx \<and>
               detect_styles cfg s = (ub, rb, dih) \<and> build_tables env s ub rb dih = Inr tb \<and>
               masses_emit (unique_types (orders env) (types_of True s)) (types_of True s) s =
                 (ms, None) \<and>
               Section ''Masses'' \<in> set ms \<and>
               f = Some (header_lines cfg s rb dih (types_of True s) tb @ box_lines env s @ ms)"
    if u: "e = UnsupportedCombiningRule"
  proof -
    from opened(5) r u
    have fe: "file_emit env cfg s ?ff ub rb dih ?uts ?types tb = (ls, Some UnsupportedCombiningRule)"
      by simp
    note fu = file_emit_unsupported [OF fe]
    from fu have ff: "?ff = True" by simp
    let ?m = "masses_emit (unique_types (orders env) (types_of True s)) (types_of True s) s"
    from fu have m: "snd ?m = None"
      and ls: "ls = header_lines cfg s rb dih (types_of True s) tb @ box_lines env s @ fst ?m"
      unfolding ff by simp_all
    from m have "?m = (fst ?m, None)" by (metis prod.collapse)
    moreover from masses_emit_heading [OF m] have "Section ''Masses'' \<in> set (fst ?m)" .
    moreover from ff have "atype first \<noteq> []" by simp
    ultimately show ?thesis using opened(1-4) ls r(1) by blast
  qed
  from 1 2 r show ?thesis by blast
qed

text \<open>The run of \<open>ex_unsupported\<close>, line by line.\<close>

lemma ex_unsupported_unique_types: "unique_types forward_orders [''A'', ''B'', ''C''] = [''A'', ''B'', ''C'']"
  by code_simp

lemma ex_unsupported_tables: "build_tables (ex_env forward_orders) ex_unsupported False False False =
  Inr \<lparr>unique_bond_types = None, assigned_bond_types = [],
       unique_angle_types = None, assigned_angle_types = [],
       unique_dihedral_types = None, assigned_dihedral_types = [],
       unique_improper_types = None, assigned_improper_types = []\<rparr>"
  by code_simp

lemma ex_unsupported_header: "header_lines (ex_cfg ''full'') ex_unsupported False False [''A'', ''B'', ''C'']
    \<lparr>unique_bond_types = None, assigned_bond_types = [],
       unique_angle_types = None, assigned_angle_types = [],
       unique_dihedral_types = None, assigned_dihedral_types = [],
       unique_improper_types = None, assigned_improper_types = []\<rparr> =
  [Title ''out.lammps'', Count 3 ''atoms'', Count 0 ''bonds'', Count 0 ''angles'',
   Count 0 ''dihedrals'', Count 0 ''impropers'', Count 3 ''atom types'', Blank]"
  by code_simp

lemma ex_unsupported_box: "box_lines (ex_env forward_orders) ex_unsupported =
   [BoxOrtho 0 10 ''x'', BoxOrtho 0 10 ''y'', BoxOrtho 0 10 ''z'']"
  by (simp add: box_lines_def ex_unsupported_def ex_atoms_def ex_env_def allclose_90_def np_isclose_def)

lemma ex_unsupported_masses: "masses_emit [''A'', ''B'', ''C''] [''A'', ''B'', ''C''] ex_unsupported =
   ([Section ''Masses'', MassRow 1 1 ''A'', MassRow 2 1 ''B'', MassRow 3 1 ''C''], None)"
  by code_simp

lemma ex_unsupported_real_dict: "type_dict [''A'', ''B'', ''C''] [''A'', ''B'', ''C''] [1, 1, 1 :: real] = Inr [(1, 1), (2, 1), (3, 1)]"
  by code_simp

lemma ex_unsupported_label_dict: "type_dict [''A'', ''B'', ''C''] [''A'', ''B'', ''C''] [''A'', ''B'', ''C''] = Inr [(1, ''A''), (2, ''B''), (3, ''C'')]"
  by code_simp

lemma sorted_pair_A_B: "sorted_pair ''A'' ''B'' = (''A'', ''B'')"
  by code_simp

lemma sorted_nbfix_A_B: "sorted_nbfix [((''A'', ''B''), (r, e0))] = [((''A'', ''B''), (r, e0))]"
  by (simp add: sorted_nbfix_def sorted_pair_A_B)

lemma ex_unsupported_pair_coeffs: "pair_coeffs [''A'', ''B'', ''C''] [((''A'', ''B''), (r, e0))] ''foo''
     [(Suc 0, s1), (2, s2), (3, s3)] [(Suc 0, e1), (2, e2), (3, e3)] = Inl UnsupportedCombiningRule"
  by (simp add: pair_coeffs_def sorted_nbfix_A_B pair_coeff_def bindE_def py_index_def dict_get_def Let_def)

lemma ex_unsupported_pair_emit: "pair_emit (ex_cfg ''full'') ex_unsupported [''A'', ''B'', ''C''] [''A'', ''B'', ''C''] =
   ([], Some UnsupportedCombiningRule)"
  by (simp add: pair_emit_def ex_unsupported_def ex_atoms_def mk_atom_def ex_unsupported_real_dict ex_unsupported_label_dict ex_unsupported_pair_coeffs after_def raise_def)

lemma ex_unsupported_file_emit: "file_emit (ex_env forward_orders) (ex_cfg ''full'') ex_unsupported True False False False
     [''A'', ''B'', ''C''] [''A'', ''B'', ''C'']
    \<lparr>unique_bond_types = None, assigned_bond_types = [],
       unique_angle_types = None, assigned_angle_types = [],
       unique_dihedral_types = None, assigned_dihedral_types = [],
       unique_improper_types = None, assigned_improper_types = []\<rparr> =
   ([Title ''out.lammps'', Count 3 ''atoms'', Count 0 ''bonds'', Count 0 ''angles'',
     Count 0 ''dihedrals'', Count 0 ''impropers'', Count 3 ''atom types'', Blank,
     BoxOrtho 0 10 ''x'', BoxOrtho 0 10 ''y'', BoxOrtho 0 10 ''z'',
     Section ''Masses'', MassRow 1 1 ''A'', MassRow 2 1 ''B'', MassRow 3 1 ''C''],
    Some UnsupportedCombiningRule)"
  by (simp add: file_emit_def forcefield_emit_def emit_all_def then_emit_def wr_def ex_unsupported_header ex_unsupported_box ex_unsupported_masses ex_unsupported_pair_emit)

lemma ex_unsupported_run:
  "write_lammpsdata (ex_env forward_orders) ex_unsupported (ex_cfg ''full'') =
   (Some [Title ''out.lammps'', Count 3 ''atoms'', Count 0 ''bonds'', Count 0 ''angles'',
     Count 0 ''dihedrals'', Count 0 ''impropers'', Count 3 ''atom types'', Blank,
     BoxOrtho 0 10 ''x'', BoxOrtho 0 10 ''y'', BoxOrtho 0 10 ''z'',
     Section ''Masses'', MassRow 1 1 ''A'', MassRow 2 1 ''B'', MassRow 3 1 ''C''],
    Some UnsupportedCombiningRule)"
proof -
  have a: "atoms ex_unsupported = [mk_atom 0 ''A'', mk_atom 1 ''B'', mk_atom 2 ''C'']"
    by (simp add: ex_unsupported_def ex_atoms_def)
  have ty: "types_of True ex_unsupported = [''A'', ''B'', ''C'']"
    by (simp add: types_of_def a mk_atom_def)
  have ds: "detect_styles (ex_cfg ''full'') ex_unsupported = (False, False, False)"
    by (simp add: detect_styles_def ex_cfg_def ex_unsupported_def ex_atoms_def)
  have at: "atype (mk_atom 0 ''A'') = ''A''" by (simp add: mk_atom_def)
  have cs: "atom_style (ex_cfg ''full'') = ''full''" by (simp add: ex_cfg_def)
  have ord: "orders (ex_env forward_orders) = forward_orders"
    by (simp add: ex_env_def)
  have bx: "box ex_unsupported = Some ((10, 10, 10), (90, 90, 90))"
    by (simp add: ex_unsupported_def ex_atoms_def)
  show ?thesis
    unfolding write_lammpsdata_def
    by (simp add: a bx ty ds ord ex_unsupported_unique_types ex_unsupported_tables ex_unsupported_file_emit Let_def at cs)
qed

theorem validation_errors_and_output_witness:
  "write_lammpsdata (ex_env forward_orders) ex_unsupported (ex_cfg ''foo'') =
     (None, Some (InvalidAtomStyle ''foo'')) \<and>
   write_lammpsdata (ex_env forward_orders) ex_both (ex_cfg ''full'') =
     (None, Some MultipleDihedralStyles) \<and>
   (\<exists>f tb ms. write_lammpsdata (ex_env forward_orders) ex_unsupported (ex_cfg ''full'') =
       (f, Some UnsupportedCombiningRule) \<and>
      build_tables (ex_env forward_orders) ex_unsupported False False False = Inr tb \<and>
      masses_emit [''A'', ''B'', ''C''] [''A'', ''B'', ''C''] ex_unsupported = (ms, None) \<and>
      Section ''Masses'' \<in> set ms \<and>
      f = Some (header_lines (ex_cfg ''full'') ex_unsupported False False [''A'', ''B'', ''C''] tb @
                box_lines (ex_env forward_orders) ex_unsupported @ ms))"
proof -
  have 1: "write_lammpsdata (ex_env forward_orders) ex_unsupported (ex_cfg ''foo'') =
     (None, Some (InvalidAtomStyle ''foo''))"
    by (simp add: write_lammpsdata_def ex_cfg_def)
  have 2: "write_lammpsdata (ex_env forward_orders) ex_both (ex_cfg ''full'') =
     (None, Some MultipleDihedralStyles)"
    by (simp add: write_lammpsdata_def ex_cfg_def ex_both_def ex_atoms_def ex_four_def
          detect_styles_def)
  obtain f where 3: "write_lammpsdata (ex_env forward_orders) ex_unsupported (ex_cfg ''full'') =
       (f, Some UnsupportedCombiningRule)"
    using ex_unsupported_run by simp
  have ty: "types_of True ex_unsupported = [''A'', ''B'', ''C'']"
    by (simp add: types_of_def ex_unsupported_def ex_atoms_def mk_atom_def)
  have ds: "detect_styles (ex_cfg ''full'') ex_unsupported = (False, False, False)"
    by (simp add: detect_styles_def ex_cfg_def ex_unsupported_def ex_atoms_def)
  have ord: "orders (ex_env forward_orders) = forward_orders"
    by (simp add: ex_env_def)
  from validation_errors_and_output [OF 1] validation_errors_and_output [OF 2]
    validation_errors_and_output [OF 3]
  obtain tb ms where "build_tables (ex_env forward_orders) ex_unsupported False False False = Inr tb"
    and "masses_emit [''A'', ''B'', ''C''] [''A'', ''B'', ''C''] ex_unsupported = (ms, None)"
    and "Section ''Masses'' \<in> set ms"
    and "f = Some (header_lines (ex_cfg ''full'') ex_unsupported False False [''A'', ''B'', ''C''] tb @
                box_lines (ex_env forward_orders) ex_unsupported @ ms)"
    unfolding ty ds ord ex_unsupported_unique_types by auto
  with 1 2 3 show ?thesis by blast
qed

text \<open>
  C3, the claim as stated, fails: the combining rule \<^verbatim>\<open>foo\<close> is rejected only when the
  pair A-C is reached, after the header, the box and the Masses section were written.
\<close>

theorem unsupported_rule_after_output:
  "snd (write_lammpsdata (ex_env forward_orders) ex_unsupported (ex_cfg ''full'')) =
     Some UnsupportedCombiningRule \<and>
   fst (write_lammpsdata (ex_env forward_orders) ex_unsupported (ex_cfg ''full'')) =
     Some [Title ''out.lammps'', Count 3 ''atoms'', Count 0 ''bonds'', Count 0 ''angles'',
       Count 0 ''dihedrals'', Count 0 ''impropers'', Count 3 ''atom types'', Blank,
       BoxOrtho 0 10 ''x'', BoxOrtho 0 10 ''y'', BoxOrtho 0 10 ''z'',
       Section ''Masses'', MassRow 1 1 ''A'', MassRow 2 1 ''B'', MassRow 3 1 ''C'']"
  by (simp add: ex_unsupported_run)

subsection \<open>Conflicting dihedral styles\<close>

text \<open>
  C7. A structure that holds both Ryckaert-Bellemans torsions and dihedrals, written
  with the detection of the styles switched on, is never written: no file is opened and
  the call ends with an exception. When the checks that come first in the source pass
  (the atom style is one of the four supported ones, line 64; there is a first atom,
  line 70; the structure has a box, line 74), that exception is the
  conflicting-dihedral-styles error of lines 141-143.
\<close>

theorem conflicting_dihedral_styles:
  assumes "detect_forcefield_style cfg"
    and "rb_torsions s \<noteq> []"
    and "dihedrals s \<noteq> []"
  shows "fst (write_lammpsdata env s cfg) = None \<and>
         snd (write_lammpsdata env s cfg) \<noteq> None \<and>
         (atom_style cfg \<in> set [''atomic'', ''charge'', ''molecular'', ''full''] \<and>
          atoms s \<noteq> [] \<and> box s \<noteq> None \<longrightarrow>
            write_lammpsdata env s cfg = (None, Some MultipleDihedralStyles))"
proof -
  from assms have ds: "detect_styles cfg s = (urey_bradleys s \<noteq> [], True, True)"
    by (simp add: detect_styles_def)
  show ?thesis
  proof (cases "atom_style cfg \<in> set [''atomic'', ''charge'', ''molecular'', ''full'']")
    case False
    from write_lammpsdata_invalid_style [OF this, of env s] False show ?thesis by simp
  next
    case st: True
    show ?thesis
    proof (cases "atoms s")
      case Nil
      from write_lammpsdata_no_atoms [OF st this, of env] Nil show ?thesis by simp
    next
      case (Cons first others)
      show ?thesis
      proof (cases "box s")
        case None
        from write_lammpsdata_no_box [OF st Cons this, of env] None show ?thesis by simp
      next
        case (Some bx)
        from write_lammpsdata_valid [OF st Cons Some ds, of env] show ?thesis by simp
      qed
    qed
  qed
qed

lemma ex_both_facts:
  "detect_forcefield_style (ex_cfg style)" "rb_torsions ex_both \<noteq> []"
  "dihedrals ex_both \<noteq> []" "atoms ex_both \<noteq> []" "atom_style (ex_cfg style) = style"
  "box ex_both \<noteq> None"
  by (simp_all add: ex_cfg_def ex_both_def ex_atoms_def ex_four_def)

theorem conflicting_dihedral_styles_witness:
  "detect_forcefield_style (ex_cfg ''full'') \<and> rb_torsions ex_both \<noteq> [] \<and>
   dihedrals ex_both \<noteq> [] \<and>
   atom_style (ex_cfg ''full'') \<in> set [''atomic'', ''charge'', ''molecular'', ''full''] \<and>
   atoms ex_both \<noteq> [] \<and> box ex_both \<noteq> None \<and>
   write_lammpsdata (ex_env forward_orders) ex_both (ex_cfg ''full'') =
     (None, Some MultipleDihedralStyles)"
  using conflicting_dihedral_styles [where cfg = "ex_cfg ''full''" and s = ex_both
      and env = "ex_env forward_orders", OF ex_both_facts(1-3)]
  by (simp add: ex_both_facts)

subsection \<open>The box section\<close>

lemma box_lines_orthogonal:
  assumes "box s = Some ((a, b, c), angs)"
    and "Box_mins env (0.1 * a, 0.1 * b, 0.1 * c) = (m1, m2, m3)"
    and "Box_maxs env (0.1 * a, 0.1 * b, 0.1 * c) = (x1, x2, x3)"
    and "allclose_90 angs"
  shows "box_lines env s =
    [BoxOrtho (10 * m1) (10 * x1) ''x'', BoxOrtho (10 * m2) (10 * x2) ''y'',
     BoxOrtho (10 * m3) (10 * x3) ''z'']"
  using assms by (simp add: box_lines_def Let_def)

lemma box_lines_triclinic:
  assumes "box s = Some ((a, b, c), (alpha, beta, gamma))"
    and "Box_mins env (0.1 * a, 0.1 * b, 0.1 * c) = (m1, m2, m3)"
    and "\<not> allclose_90 (alpha, beta, gamma)"
    and "xy = b * cos (radians gamma)"
    and "xz = c * cos (radians beta)"
    and "ly = np_sqrt (Fin (b\<^sup>2 - xy\<^sup>2))"
    and "yz = np_div (Fin (b * c * cos (radians alpha) - xy * xz)) ly"
    and "lz = np_sqrt (np_sub (Fin (c\<^sup>2 - xz\<^sup>2)) (np_square yz))"
  shows "box_lines env s =
    [BoxBound ''x'' (Fin (10 * m1 + min 0 (min xy (min xz (xy + xz)))))
                    (Fin (10 * m1 + a + max 0 (max xy (max xz (xy + xz))))),
     BoxBound ''y'' (np_add (Fin (10 * m2)) (np_min (Fin 0) yz))
                    (np_add (np_add (Fin (10 * m2)) ly) (np_max (Fin 0) yz)),
     BoxBound ''z'' (Fin (10 * m3)) (np_add (Fin (10 * m3)) lz),
     BoxTilt (Fin xy) (Fin xz) yz]"
proof -
  have scale: "10 * (0.1 * x) = x" for x :: real by simp
  show ?thesis
    by (simp only: box_lines_def triclinic_lines_def Let_def assms option.case prod.case scale
          if_False)
qed

lemma ly_squared_nonneg: "0 \<le> (b::real)\<^sup>2 - (b * cos (g::real))\<^sup>2"
proof -
  have "(b * cos g)\<^sup>2 = b\<^sup>2 * (cos g)\<^sup>2" by (rule power_mult_distrib)
  moreover have "(cos g)\<^sup>2 \<le> 1" by (simp add: abs_square_le_1)
  ultimately show ?thesis
    by (metis diff_ge_0_iff_ge mult.right_neutral mult_left_mono zero_le_power2)
qed


lemma write_opened:
  assumes "write_lammpsdata env s cfg = (Some ls, e)"
  shows "\<exists>ff ub rb dih uts types tb. file_emit env cfg s ff ub rb dih uts types tb = (ls, e)"
proof (cases rule: write_lammpsdata_cases [of cfg env s])
  case (opened first others bx ub rb dih tb ls' e')
  from opened(6) assms have "ls' = ls" "e' = e" by simp_all
  with opened(4,5) show ?thesis by blast
qed (use assms in simp_all)

lemma then_emit_done: "snd (then_emit p q) = None \<Longrightarrow> snd p = None \<and> snd q = None"
  by (simp add: then_emit_def split: option.splits)

lemma atoms_emit_heading: "Section ''Atoms'' \<in> set (fst (atoms_emit cfg s uts types))"
  by (simp add: atoms_emit_def then_emit_wr)

lemma file_emit_sections:
  "\<exists>rest. fst (file_emit env cfg s ff ub rb dih uts types tb) =
      header_lines cfg s rb dih types tb @ box_lines env s @ rest \<and>
      (snd (file_emit env cfg s ff ub rb dih uts types tb) = None \<longrightarrow>
         Section ''Masses'' \<in> set rest \<and> Section ''Atoms'' \<in> set rest)"
proof -
  let ?m = "masses_emit uts types s"
  let ?f = "if ff then forcefield_emit env cfg s ub rb dih uts types tb else wr []"
  let ?a = "atoms_emit cfg s uts types"
  let ?t = "emit_all [bonded_emit cfg s rb dih tb]"
  let ?rest = "then_emit ?m (then_emit ?f (then_emit ?a ?t))"
  have fe: "file_emit env cfg s ff ub rb dih uts types tb =
      then_emit (wr (header_lines cfg s rb dih types tb))
        (then_emit (wr (box_lines env s)) ?rest)"
    by (simp only: file_emit_def emit_all_Cons)
  have "Section ''Masses'' \<in> set (fst ?rest) \<and> Section ''Atoms'' \<in> set (fst ?rest)"
    if "snd ?rest = None"
  proof -
    from then_emit_done [OF that] have m: "snd ?m = None"
      and 1: "snd (then_emit ?f (then_emit ?a ?t)) = None" by simp_all
    from then_emit_done [OF 1] have f: "snd ?f = None"
      and 2: "snd (then_emit ?a ?t) = None" by simp_all
    from then_emit_done [OF 2] have a: "snd ?a = None" by simp
    have "fst ?rest = fst ?m @ fst ?f @ fst ?a @ fst ?t"
      by (simp only: then_emit_pass [OF m] then_emit_pass [OF f] then_emit_pass [OF a]
            fst_conv snd_conv)
    with masses_emit_heading [OF m] atoms_emit_heading [of cfg s uts types]
    show ?thesis by simp
  qed
  then show ?thesis
    unfolding fe then_emit_wr by (intro exI [of _ "fst ?rest"]) simp
qed

lemma box_lines_tilted:
  assumes "box s = Some ((a, b, c), (alpha, beta, gamma))"
    and "Box_mins env (0.1 * a, 0.1 * b, 0.1 * c) = (m1, m2, m3)"
    and "\<not> allclose_90 (alpha, beta, gamma)"
    and "xy = b * cos (radians gamma)"
    and "xz = c * cos (radians beta)"
    and "ly = sqrt (b\<^sup>2 - xy\<^sup>2)"
    and "yz = (b * c * cos (radians alpha) - xy * xz) / ly"
  shows "\<exists>ylo yhi zhi tilt_yz.
      box_lines env s =
        [BoxBound ''x'' (Fin (10 * m1 + min 0 (min xy (min xz (xy + xz)))))
                        (Fin (10 * m1 + a + max 0 (max xy (max xz (xy + xz))))),
         BoxBound ''y'' ylo yhi,
         BoxBound ''z'' (Fin (10 * m3)) zhi,
         BoxTilt (Fin xy) (Fin xz) tilt_yz] \<and>
      (ly \<noteq> 0 \<longrightarrow>
         tilt_yz = Fin yz \<and>
         ylo = Fin (10 * m2 + min 0 yz) \<and>
         yhi = Fin (10 * m2 + ly + max 0 yz) \<and>
         zhi = np_add (Fin (10 * m3)) (np_sqrt (Fin (c\<^sup>2 - xz\<^sup>2 - yz\<^sup>2))))"
proof -
  define nly where "nly = np_sqrt (Fin (b\<^sup>2 - xy\<^sup>2))"
  define nyz where "nyz = np_div (Fin (b * c * cos (radians alpha) - xy * xz)) nly"
  define nlz where "nlz = np_sqrt (np_sub (Fin (c\<^sup>2 - xz\<^sup>2)) (np_square nyz))"
  note shape = box_lines_triclinic [OF assms(1,2,3,4,5) nly_def nyz_def nlz_def]
  have nn: "0 \<le> b\<^sup>2 - xy\<^sup>2" unfolding assms(4) by (rule ly_squared_nonneg)
  then have nly: "nly = Fin ly" by (simp add: nly_def assms(6))
  have fin: "ly \<noteq> 0 \<Longrightarrow> nyz = Fin yz \<and> nlz = np_sqrt (Fin (c\<^sup>2 - xz\<^sup>2 - yz\<^sup>2))"
    by (simp add: nyz_def nlz_def nly assms(7) np_sub_def)
  show ?thesis
    apply (rule exI [of _ "np_add (Fin (10 * m2)) (np_min (Fin 0) nyz)"])
    apply (rule exI [of _ "np_add (np_add (Fin (10 * m2)) nly) (np_max (Fin 0) nyz)"])
    apply (rule exI [of _ "np_add (Fin (10 * m3)) nlz"])
    apply (rule exI [of _ nyz])
    apply (rule conjI)
     apply (rule shape)
    using fin nly apply simp
    done
qed

text \<open>
  C8, as amended. The box section is decided by \<^verbatim>\<open>np.allclose\<close>, not by equality with
  90 degrees. When every angle is within \<open>1e-8 + 1e-5 * 90\<close> of 90 the section is three
  lo-hi lines and no tilt line. Otherwise it is three bound lines and one tilt line with
  \<open>xy = b cos \<gamma>\<close>, \<open>xz = c cos \<beta>\<close> and \<open>yz = (b c cos \<alpha> - xy xz) / ly\<close>,
  \<open>ly = sqrt (b\<^sup>2 - xy\<^sup>2)\<close>; the x bounds are widened by the minimum and maximum of
  \<open>0, xy, xz, xy + xz\<close>, the y bounds by those of \<open>0, yz\<close>, and the z bounds are not
  shifted. The explicit values of the y bounds and of \<open>yz\<close> are those of a box with
  \<open>ly \<noteq> 0\<close>.
\<close>

theorem box_section_shape:
  assumes "box s = Some ((a, b, c), (alpha, beta, gamma))"
    and "Box_mins env (0.1 * a, 0.1 * b, 0.1 * c) = (m1, m2, m3)"
    and "Box_maxs env (0.1 * a, 0.1 * b, 0.1 * c) = (x1, x2, x3)"
    and "xy = b * cos (radians gamma)"
    and "xz = c * cos (radians beta)"
    and "ly = sqrt (b\<^sup>2 - xy\<^sup>2)"
    and "yz = (b * c * cos (radians alpha) - xy * xz) / ly"
  shows "(allclose_90 (alpha, beta, gamma) \<longrightarrow>
            box_lines env s =
              [BoxOrtho (10 * m1) (10 * x1) ''x'', BoxOrtho (10 * m2) (10 * x2) ''y'',
               BoxOrtho (10 * m3) (10 * x3) ''z'']) \<and>
         (\<not> allclose_90 (alpha, beta, gamma) \<longrightarrow>
            (\<exists>ylo yhi zhi tilt_yz.
               box_lines env s =
                 [BoxBound ''x'' (Fin (10 * m1 + min 0 (min xy (min xz (xy + xz)))))
                                 (Fin (10 * m1 + a + max 0 (max xy (max xz (xy + xz))))),
                  BoxBound ''y'' ylo yhi,
                  BoxBound ''z'' (Fin (10 * m3)) zhi,
                  BoxTilt (Fin xy) (Fin xz) tilt_yz] \<and>
               (ly \<noteq> 0 \<longrightarrow>
                  tilt_yz = Fin yz \<and>
                  ylo = Fin (10 * m2 + min 0 yz) \<and>
                  yhi = Fin (10 * m2 + ly + max 0 yz) \<and>
                  zhi = np_add (Fin (10 * m3)) (np_sqrt (Fin (c\<^sup>2 - xz\<^sup>2 - yz\<^sup>2))))))"
proof (intro conjI impI)
  assume "allclose_90 (alpha, beta, gamma)"
  with assms(1-3) show "box_lines env s =
      [BoxOrtho (10 * m1) (10 * x1) ''x'', BoxOrtho (10 * m2) (10 * x2) ''y'',
       BoxOrtho (10 * m3) (10 * x3) ''z'']"
    by (rule box_lines_orthogonal)
next
  assume "\<not> allclose_90 (alpha, beta, gamma)"
  from box_lines_tilted [OF assms(1,2) this assms(4-7)]
  show "\<exists>ylo yhi zhi tilt_yz.
      box_lines env s =
        [BoxBound ''x'' (Fin (10 * m1 + min 0 (min xy (min xz (xy + xz)))))
                        (Fin (10 * m1 + a + max 0 (max xy (max xz (xy + xz))))),
         BoxBound ''y'' ylo yhi,
         BoxBound ''z'' (Fin (10 * m3)) zhi,
         BoxTilt (Fin xy) (Fin xz) tilt_yz] \<and>
      (ly \<noteq> 0 \<longrightarrow>
         tilt_yz = Fin yz \<and>
         ylo = Fin (10 * m2 + min 0 yz) \<and>
         yhi = Fin (10 * m2 + ly + max 0 yz) \<and>
         zhi = np_add (Fin (10 * m3)) (np_sqrt (Fin (c\<^sup>2 - xz\<^sup>2 - yz\<^sup>2))))" .
qed

subsection \<open>A run on one atom in a given box\<close>

lemma ex_box_fields:
  "atoms (ex_box bx) = [mk_atom 0 ''A'']" "bonds (ex_box bx) = []" "angles (ex_box bx) = []"
  "urey_bradleys (ex_box bx) = []" "rb_torsions (ex_box bx) = []" "dihedrals (ex_box bx) = []"
  "impropers (ex_box bx) = []" "has_NBFIX (ex_box bx) = False" "box (ex_box bx) = Some bx"
  by (simp_all add: ex_box_def ex_atoms_def)

lemma ex_cfg_fields:
  "filename (ex_cfg style) = ''out.lammps''" "atom_style (ex_cfg style) = style"
  "detect_forcefield_style (ex_cfg style)" "nbfix_in_data_file (ex_cfg style)"
  by (simp_all add: ex_cfg_def)

lemma ex_env_fields:
  "orders (ex_env so) = so" "join_dihedrals (ex_env so) ds = ds"
  "Box_mins (ex_env so) l = (0, 0, 0)" "Box_maxs (ex_env so) l = l"
  by (simp_all add: ex_env_def)

lemma mk_atom_fields:
  "idx (mk_atom i t) = i" "atype (mk_atom i t) = t" "name (mk_atom i t) = t"
  "charge (mk_atom i t) = 0" "mass (mk_atom i t) = 1" "sigma (mk_atom i t) = 1"
  "epsilon (mk_atom i t) = 1" "coord_x (mk_atom i t) = 0" "coord_y (mk_atom i t) = 0"
  "coord_z (mk_atom i t) = 0"
  by (simp_all add: mk_atom_def)

lemma ex_box_indices:
  "bond_indices (ex_box bx) = []" "angle_indices (ex_box bx) = []"
  "dihedral_indices rb dih (ex_box bx) = []" "improper_indices (ex_box bx) = []"
  by (simp_all add: bond_indices_def angle_indices_def dihedral_indices_def improper_indices_def
        ex_box_fields)

lemma ex_box_tables: "build_tables (ex_env so) (ex_box bx) ub rb dih = Inr no_tables"
  by (simp add: build_tables_def bond_part_def angle_part_def dihedral_part_def improper_part_def
        ex_box_indices bindE_def no_tables_def)

lemma unique_types_A: "unique_types forward_orders [''A''] = [''A'']"
  by code_simp

lemma ex_box_header:
  "header_lines (ex_cfg ''full'') (ex_box bx) rb dih [''A''] no_tables =
     [Title ''out.lammps'', Count 1 ''atoms'', Count 0 ''bonds'', Count 0 ''angles'',
      Count 0 ''dihedrals'', Count 0 ''impropers'', Count 1 ''atom types'', Blank]"
  by (simp add: header_lines_def ex_cfg_fields ex_box_fields ex_box_indices is_molecular_def
        len_set_def)

lemma type_dict_A: "type_dict [''A''] [''A''] [v] = Inr [(Suc 0, v)]"
  by (simp add: type_dict_def bindE_def py_index_def py_dict_def)

lemma ex_box_masses:
  "masses_emit [''A''] [''A''] (ex_box bx) = ([Section ''Masses'', MassRow 1 1 ''A''], None)"
  by (simp add: masses_emit_def ex_box_fields mk_atom_fields type_dict_A after_def then_emit_def
        bindE_def py_nth_def wr_def)

lemma ex_box_pair:
  "pair_emit (ex_cfg ''full'') (ex_box bx) [''A''] [''A''] =
     ([Section ''Pair Coeffs # lj'', Comment ''# epsilon (kcal/mol) sigma (Angstrom)'',
       PairRow 1 1 1 ''A''], None)"
  by (simp add: pair_emit_def ex_box_fields mk_atom_fields type_dict_A after_def then_emit_def
        bindE_def dict_get_def wr_def)

lemma ex_box_atoms:
  "atoms_emit (ex_cfg ''full'') (ex_box bx) [''A''] [''A''] =
     ([Section ''Atoms'', AtomFull 1 0 1 0 0 0 0], None)"
  by (simp add: atoms_emit_def ex_box_fields ex_cfg_fields mk_atom_fields then_emit_def
        bindE_def py_index_def atom_row_def wr_def)

lemma ex_box_run:
  "write_lammpsdata (ex_env forward_orders) (ex_box bx) (ex_cfg ''full'') =
     (Some ([Title ''out.lammps'', Count 1 ''atoms'', Count 0 ''bonds'', Count 0 ''angles'',
             Count 0 ''dihedrals'', Count 0 ''impropers'', Count 1 ''atom types'', Blank]
            @ box_lines (ex_env forward_orders) (ex_box bx)
            @ [Section ''Masses'', MassRow 1 1 ''A'',
               Section ''Pair Coeffs # lj'', Comment ''# epsilon (kcal/mol) sigma (Angstrom)'',
               PairRow 1 1 1 ''A'',
               Section ''Atoms'', AtomFull 1 0 1 0 0 0 0]),
      None)"
proof -
  have ds: "detect_styles (ex_cfg ''full'') (ex_box bx) = (False, False, False)"
    by (simp add: detect_styles_def ex_cfg_fields ex_box_fields)
  have ty: "types_of True (ex_box bx) = [''A'']"
    by (simp add: types_of_def ex_box_fields mk_atom_fields)
  have fe: "file_emit (ex_env forward_orders) (ex_cfg ''full'') (ex_box bx) True False False False
      [''A''] [''A''] no_tables =
     ([Title ''out.lammps'', Count 1 ''atoms'', Count 0 ''bonds'', Count 0 ''angles'',
             Count 0 ''dihedrals'', Count 0 ''impropers'', Count 1 ''atom types'', Blank]
            @ box_lines (ex_env forward_orders) (ex_box bx)
            @ [Section ''Masses'', MassRow 1 1 ''A'',
               Section ''Pair Coeffs # lj'', Comment ''# epsilon (kcal/mol) sigma (Angstrom)'',
               PairRow 1 1 1 ''A'',
               Section ''Atoms'', AtomFull 1 0 1 0 0 0 0], None)"
    by (simp add: file_emit_def forcefield_emit_def emit_all_Cons emit_all_Nil then_emit_wr
          ex_box_header ex_box_masses ex_box_pair ex_box_atoms bonded_emit_def ex_box_indices
          bond_coeffs_emit_def angle_coeffs_emit_def dihedral_coeffs_emit_def
          improper_coeffs_emit_def is_molecular_def ex_cfg_fields then_emit_def wr_def)
  show ?thesis
    by (simp add: write_lammpsdata_def ex_cfg_fields ex_box_fields mk_atom_fields ds ty
          ex_env_fields unique_types_A ex_box_tables fe Let_def)
qed

subsection \<open>Three boxes\<close>

lemma allclose_near_90: "allclose_90 (90.0005, 90, 90)"
  by (simp add: allclose_90_def np_isclose_def)

lemma not_allclose_60: "\<not> allclose_90 (90, 90, 60)"
  by (simp add: allclose_90_def np_isclose_def)

lemma not_allclose_30: "\<not> allclose_90 (30, 30, 90)"
  by (simp add: allclose_90_def np_isclose_def)

lemma radians_values:
  "radians 90 = pi / 2" "radians 60 = pi / 3" "radians 30 = pi / 6"
  by (simp_all add: radians_def)

lemma ex_box_near_90:
  "box_lines (ex_env forward_orders) (ex_box box_near_90) =
     [BoxOrtho 0 10 ''x'', BoxOrtho 0 10 ''y'', BoxOrtho 0 10 ''z'']"
  using box_lines_orthogonal [where env = "ex_env forward_orders"
      and s = "ex_box box_near_90", OF _ _ _ allclose_near_90,
      of 10 10 10 0 0 0 1 1 1]
  by (simp add: ex_box_fields ex_env_fields box_near_90_def)

lemma sqrt_100: "sqrt 100 = 10"
  using real_sqrt_abs [of 10] by simp

lemma ex_box_60:
  "box_lines (ex_env forward_orders) (ex_box box_60) =
     [BoxBound ''x'' (Fin 0) (Fin 15), BoxBound ''y'' (Fin 0) (Fin (sqrt 75)),
      BoxBound ''z'' (Fin 0) (Fin 10), BoxTilt (Fin 5) (Fin 0) (Fin 0)]"
proof -
  have "\<exists>ylo yhi zhi tilt_yz.
      box_lines (ex_env forward_orders) (ex_box box_60) =
        [BoxBound ''x'' (Fin (10 * 0 + min 0 (min 5 (min 0 (5 + 0)))))
                        (Fin (10 * 0 + 10 + max 0 (max 5 (max 0 (5 + 0))))),
         BoxBound ''y'' ylo yhi,
         BoxBound ''z'' (Fin (10 * 0)) zhi,
         BoxTilt (Fin 5) (Fin 0) tilt_yz] \<and>
      (sqrt 75 \<noteq> 0 \<longrightarrow>
         tilt_yz = Fin 0 \<and>
         ylo = Fin (10 * 0 + min 0 0) \<and>
         yhi = Fin (10 * 0 + sqrt 75 + max 0 0) \<and>
         zhi = np_add (Fin (10 * 0)) (np_sqrt (Fin (10\<^sup>2 - 0\<^sup>2 - 0\<^sup>2))))"
    by (rule box_lines_tilted [where a = 10 and b = 10 and c = 10 and alpha = 90 and beta = 90
          and gamma = 60 and ?m2.0 = 0])
       (simp_all add: ex_box_fields ex_env_fields not_allclose_60 radians_values cos_60 box_60_def)
  then show ?thesis by (auto simp: sqrt_100)
qed

lemma ex_box_30:
  "box_lines (ex_env forward_orders) (ex_box box_30) =
     [BoxBound ''x'' (Fin 0) (Fin (10 + 5 * sqrt 3)), BoxBound ''y'' (Fin 0) (Fin (10 + 5 * sqrt 3)),
      BoxBound ''z'' (Fin 0) NaN, BoxTilt (Fin 0) (Fin (5 * sqrt 3)) (Fin (5 * sqrt 3))]"
proof -
  have "\<exists>ylo yhi zhi tilt_yz.
      box_lines (ex_env forward_orders) (ex_box box_30) =
        [BoxBound ''x'' (Fin (10 * 0 + min 0 (min 0 (min (5 * sqrt 3) (0 + 5 * sqrt 3)))))
                        (Fin (10 * 0 + 10 + max 0 (max 0 (max (5 * sqrt 3) (0 + 5 * sqrt 3))))),
         BoxBound ''y'' ylo yhi,
         BoxBound ''z'' (Fin (10 * 0)) zhi,
         BoxTilt (Fin 0) (Fin (5 * sqrt 3)) tilt_yz] \<and>
      (10 \<noteq> (0::real) \<longrightarrow>
         tilt_yz = Fin (5 * sqrt 3) \<and>
         ylo = Fin (10 * 0 + min 0 (5 * sqrt 3)) \<and>
         yhi = Fin (10 * 0 + 10 + max 0 (5 * sqrt 3)) \<and>
         zhi = np_add (Fin (10 * 0)) (np_sqrt (Fin (10\<^sup>2 - (5 * sqrt 3)\<^sup>2 - (5 * sqrt 3)\<^sup>2))))"
    by (rule box_lines_tilted [where a = 10 and b = 10 and c = 10 and alpha = 30 and beta = 30
          and gamma = 90 and ?m2.0 = 0])
       (simp_all add: ex_box_fields ex_env_fields not_allclose_30 radians_values cos_30 sqrt_100 box_30_def)
  moreover have "(5 * sqrt 3)\<^sup>2 = (75::real)" by (simp add: power_mult_distrib)
  ultimately show ?thesis by (auto simp: max_def min_def)
qed

subsection \<open>The box section and the degenerate cell on examples\<close>

theorem box_section_shape_witness:
  "allclose_90 (90.0005, 90, 90) \<and>
   box_lines (ex_env forward_orders) (ex_box box_near_90) =
     [BoxOrtho 0 10 ''x'', BoxOrtho 0 10 ''y'', BoxOrtho 0 10 ''z''] \<and>
   \<not> allclose_90 (90, 90, 60) \<and> sqrt (10\<^sup>2 - 5\<^sup>2) \<noteq> 0 \<and>
   box_lines (ex_env forward_orders) (ex_box box_60) =
     [BoxBound ''x'' (Fin 0) (Fin 15), BoxBound ''y'' (Fin 0) (Fin (sqrt 75)),
      BoxBound ''z'' (Fin 0) (Fin 10), BoxTilt (Fin 5) (Fin 0) (Fin 0)]"
proof -
  have m: "Box_mins (ex_env forward_orders) (0.1 * 10, 0.1 * 10, 0.1 * 10) = (0, 0, 0)"
    by (simp add: ex_env_fields)
  have x: "Box_maxs (ex_env forward_orders) (0.1 * 10, 0.1 * 10, 0.1 * 10) =
      (0.1 * 10, 0.1 * 10, 0.1 * 10)"
    by (simp add: ex_env_fields)
  have b1: "box (ex_box box_near_90) = Some ((10, 10, 10), (90.0005, 90, 90))"
    by (simp add: ex_box_fields box_near_90_def)
  have b2: "box (ex_box box_60) = Some ((10, 10, 10), (90, 90, 60))"
    by (simp add: ex_box_fields box_60_def)
  from box_section_shape [OF b1 m x refl refl refl refl] allclose_near_90
  have "box_lines (ex_env forward_orders) (ex_box box_near_90) =
     [BoxOrtho (10 * 0) (10 * (0.1 * 10)) ''x'', BoxOrtho (10 * 0) (10 * (0.1 * 10)) ''y'',
      BoxOrtho (10 * 0) (10 * (0.1 * 10)) ''z'']"
    by blast
  then have 1: "box_lines (ex_env forward_orders) (ex_box box_near_90) =
     [BoxOrtho 0 10 ''x'', BoxOrtho 0 10 ''y'', BoxOrtho 0 10 ''z'']"
    by simp
  have 3: "sqrt (10\<^sup>2 - 5\<^sup>2) \<noteq> (0::real)" by simp
  from box_section_shape [OF b2 m x refl refl refl refl] not_allclose_60
  have 2: "box_lines (ex_env forward_orders) (ex_box box_60) =
     [BoxBound ''x'' (Fin 0) (Fin 15), BoxBound ''y'' (Fin 0) (Fin (sqrt 75)),
      BoxBound ''z'' (Fin 0) (Fin 10), BoxTilt (Fin 5) (Fin 0) (Fin 0)]"
    by (auto simp: radians_values cos_60 sqrt_100)
  from 1 2 3 allclose_near_90 not_allclose_60 show ?thesis by blast
qed

text \<open>
  C8, the claim as stated, fails for an angle that differs from 90 degrees by less than
  the tolerance of \<^verbatim>\<open>np.allclose\<close>: the angles 90.0005, 90, 90 give three lo-hi lines
  and no tilt line.
\<close>

theorem near_90_box_has_no_tilt:
  "fst (snd box_near_90) \<noteq> 90 \<and>
   snd (snd box_near_90) = (90, 90) \<and>
   write_lammpsdata (ex_env forward_orders) (ex_box box_near_90) (ex_cfg ''full'') =
     (Some [Title ''out.lammps'', Count 1 ''atoms'', Count 0 ''bonds'', Count 0 ''angles'',
            Count 0 ''dihedrals'', Count 0 ''impropers'', Count 1 ''atom types'', Blank,
            BoxOrtho 0 10 ''x'', BoxOrtho 0 10 ''y'', BoxOrtho 0 10 ''z'',
            Section ''Masses'', MassRow 1 1 ''A'',
            Section ''Pair Coeffs # lj'', Comment ''# epsilon (kcal/mol) sigma (Angstrom)'',
            PairRow 1 1 1 ''A'',
            Section ''Atoms'', AtomFull 1 0 1 0 0 0 0],
      None)"
  by (simp add: ex_box_run ex_box_near_90) (simp add: box_near_90_def)

text \<open>
  C4, as amended. The writer has no geometry check and raises no geometry error.
  Whenever the file is opened for a box that is not orthogonal, the three bound lines
  and the tilt line are written. An exception that ends the call after that is one of
  those of the writes of the sections (\<open>emit_error\<close>); when the call ends without an
  exception, the headings of the Masses and of the Atoms section are among the lines
  written after the tilt line. \<open>ly\<^sup>2 = b\<^sup>2 - xy\<^sup>2\<close> is never negative. When
  \<open>ly \<noteq> 0\<close> and \<open>lz\<^sup>2 = c\<^sup>2 - xz\<^sup>2 - yz\<^sup>2\<close> is negative, the tilt factor
  \<open>yz\<close> is written as the finite value of its formula and the upper z bound is written as
  not-a-number.
\<close>

theorem degenerate_box_is_written:
  assumes "write_lammpsdata env s cfg = (Some ls, e)"
    and "box s = Some ((a, b, c), (alpha, beta, gamma))"
    and "\<not> allclose_90 (alpha, beta, gamma)"
    and "xy = b * cos (radians gamma)"
    and "xz = c * cos (radians beta)"
    and "ly = sqrt (b\<^sup>2 - xy\<^sup>2)"
    and "yz = (b * c * cos (radians alpha) - xy * xz) / ly"
  shows "0 \<le> b\<^sup>2 - xy\<^sup>2 \<and>
         (\<forall>e'. e = Some e' \<longrightarrow> emit_error e') \<and>
         (\<exists>hs rest xlo xhi ylo yhi zlo zhi tilt_yz.
            ls = hs @ [BoxBound ''x'' xlo xhi, BoxBound ''y'' ylo yhi, BoxBound ''z'' zlo zhi,
                       BoxTilt (Fin xy) (Fin xz) tilt_yz] @ rest \<and>
            (ly \<noteq> 0 \<and> c\<^sup>2 - xz\<^sup>2 - yz\<^sup>2 < 0 \<longrightarrow> tilt_yz = Fin yz \<and> zhi = NaN) \<and>
            (e = None \<longrightarrow> Section ''Masses'' \<in> set rest \<and> Section ''Atoms'' \<in> set rest))"
proof (intro conjI)
  show "0 \<le> b\<^sup>2 - xy\<^sup>2" unfolding assms(4) by (rule ly_squared_nonneg)
next
  from write_opened [OF assms(1)] obtain ff ub rb dih uts types tb
    where fe: "file_emit env cfg s ff ub rb dih uts types tb = (ls, e)" by blast
  from raises_onlyD [OF file_emit_raises, of env cfg s ff ub rb dih uts types tb] fe
  show "\<forall>e'. e = Some e' \<longrightarrow> emit_error e'" by simp
  from file_emit_sections [of env cfg s ff ub rb dih uts types tb] fe
  obtain rest where ls: "ls = header_lines cfg s rb dih types tb @ box_lines env s @ rest"
    and secs: "e = None \<longrightarrow> Section ''Masses'' \<in> set rest \<and> Section ''Atoms'' \<in> set rest"
    by auto
  obtain m1 m2 m3 where m: "Box_mins env (0.1 * a, 0.1 * b, 0.1 * c) = (m1, m2, m3)"
    by (cases "Box_mins env (0.1 * a, 0.1 * b, 0.1 * c)") auto
  from box_lines_tilted [OF assms(2) m assms(3-7)] obtain ylo yhi zhi tilt_yz
    where bl: "box_lines env s =
        [BoxBound ''x'' (Fin (10 * m1 + min 0 (min xy (min xz (xy + xz)))))
                        (Fin (10 * m1 + a + max 0 (max xy (max xz (xy + xz))))),
         BoxBound ''y'' ylo yhi,
         BoxBound ''z'' (Fin (10 * m3)) zhi,
         BoxTilt (Fin xy) (Fin xz) tilt_yz]"
      and fin: "ly \<noteq> 0 \<Longrightarrow> tilt_yz = Fin yz \<and>
         zhi = np_add (Fin (10 * m3)) (np_sqrt (Fin (c\<^sup>2 - xz\<^sup>2 - yz\<^sup>2)))"
    by blast
  have "ly \<noteq> 0 \<and> c\<^sup>2 - xz\<^sup>2 - yz\<^sup>2 < 0 \<longrightarrow> tilt_yz = Fin yz \<and> zhi = NaN"
    using fin by simp
  with ls bl secs show "\<exists>hs rest xlo xhi ylo yhi zlo zhi tilt_yz.
      ls = hs @ [BoxBound ''x'' xlo xhi, BoxBound ''y'' ylo yhi, BoxBound ''z'' zlo zhi,
                 BoxTilt (Fin xy) (Fin xz) tilt_yz] @ rest \<and>
      (ly \<noteq> 0 \<and> c\<^sup>2 - xz\<^sup>2 - yz\<^sup>2 < 0 \<longrightarrow> tilt_yz = Fin yz \<and> zhi = NaN) \<and>
      (e = None \<longrightarrow> Section ''Masses'' \<in> set rest \<and> Section ''Atoms'' \<in> set rest)"
    by blast
qed

theorem degenerate_box_is_written_witness:
  "\<not> allclose_90 (30, 30, 90) \<and> sqrt (10\<^sup>2 - 0\<^sup>2) \<noteq> (0::real) \<and>
   (10::real)\<^sup>2 - (5 * sqrt 3)\<^sup>2 - (5 * sqrt 3)\<^sup>2 < 0 \<and>
   (\<exists>ls hs rest xlo xhi ylo yhi zlo.
      write_lammpsdata (ex_env forward_orders) (ex_box box_30) (ex_cfg ''full'') = (Some ls, None) \<and>
      ls = hs @ [BoxBound ''x'' xlo xhi, BoxBound ''y'' ylo yhi, BoxBound ''z'' zlo NaN,
                 BoxTilt (Fin 0) (Fin (5 * sqrt 3)) (Fin (5 * sqrt 3))] @ rest \<and>
      Section ''Masses'' \<in> set rest \<and> Section ''Atoms'' \<in> set rest)"
proof -
  have sq: "(5 * sqrt 3)\<^sup>2 = (75::real)" by (simp add: power_mult_distrib)
  have b: "box (ex_box box_30) = Some ((10, 10, 10), (30, 30, 90))"
    by (simp add: ex_box_fields box_30_def)
  obtain ls where run:
    "write_lammpsdata (ex_env forward_orders) (ex_box box_30) (ex_cfg ''full'') = (Some ls, None)"
    using ex_box_run [of box_30] by simp
  from degenerate_box_is_written [OF run b not_allclose_30 refl refl refl refl]
  obtain hs rest xlo xhi ylo yhi zlo zhi tilt_yz where
    ls: "ls = hs @ [BoxBound ''x'' xlo xhi, BoxBound ''y'' ylo yhi, BoxBound ''z'' zlo zhi,
                    BoxTilt (Fin (10 * cos (radians 90))) (Fin (10 * cos (radians 30))) tilt_yz]
               @ rest"
    and nan: "sqrt (10\<^sup>2 - (10 * cos (radians 90))\<^sup>2) \<noteq> 0 \<and>
        10\<^sup>2 - (10 * cos (radians 30))\<^sup>2 -
          ((10 * 10 * cos (radians 30) - 10 * cos (radians 90) * (10 * cos (radians 30))) /
             sqrt (10\<^sup>2 - (10 * cos (radians 90))\<^sup>2))\<^sup>2 < 0 \<longrightarrow>
        tilt_yz = Fin ((10 * 10 * cos (radians 30) - 10 * cos (radians 90) * (10 * cos (radians 30))) /
             sqrt (10\<^sup>2 - (10 * cos (radians 90))\<^sup>2)) \<and> zhi = NaN"
    and sec: "Section ''Masses'' \<in> set rest \<and> Section ''Atoms'' \<in> set rest"
    by blast
  from nan have "tilt_yz = Fin (5 * sqrt 3) \<and> zhi = NaN"
    by (simp add: radians_values cos_30 sqrt_100 sq)
  with ls have "ls = hs @ [BoxBound ''x'' xlo xhi, BoxBound ''y'' ylo yhi, BoxBound ''z'' zlo NaN,
                 BoxTilt (Fin 0) (Fin (5 * sqrt 3)) (Fin (5 * sqrt 3))] @ rest"
    by (simp add: radians_values cos_30)
  with run not_allclose_30 sq sec show ?thesis by (simp add: sqrt_100) blast
qed

text \<open>
  C4, the claim as stated, fails for the angles 30, 30, 90: \<open>lz\<^sup>2\<close> is negative, yet the
  call ends without any exception, the upper z bound is written as not-a-number, and the
  Masses, Pair Coeffs and Atoms sections follow.
\<close>

theorem degenerate_box_writes_nan:
  "(10::real)\<^sup>2 - (5 * sqrt 3)\<^sup>2 - (5 * sqrt 3)\<^sup>2 < 0 \<and>
   write_lammpsdata (ex_env forward_orders) (ex_box box_30) (ex_cfg ''full'') =
     (Some [Title ''out.lammps'', Count 1 ''atoms'', Count 0 ''bonds'', Count 0 ''angles'',
            Count 0 ''dihedrals'', Count 0 ''impropers'', Count 1 ''atom types'', Blank,
            BoxBound ''x'' (Fin 0) (Fin (10 + 5 * sqrt 3)),
            BoxBound ''y'' (Fin 0) (Fin (10 + 5 * sqrt 3)),
            BoxBound ''z'' (Fin 0) NaN,
            BoxTilt (Fin 0) (Fin (5 * sqrt 3)) (Fin (5 * sqrt 3)),
            Section ''Masses'', MassRow 1 1 ''A'',
            Section ''Pair Coeffs # lj'', Comment ''# epsilon (kcal/mol) sigma (Angstrom)'',
            PairRow 1 1 1 ''A'',
            Section ''Atoms'', AtomFull 1 0 1 0 0 0 0],
      None)"
proof -
  have "(5 * sqrt 3)\<^sup>2 = (75::real)" by (simp add: power_mult_distrib)
  then show ?thesis by (simp add: ex_box_run ex_box_30)
qed

subsection \<open>Lines written by each section\<close>

lemma bindE_InrE:
  assumes "bindE m f = Inr y"
  obtains x where "m = Inr x" "f x = Inr y"
  using assms by (cases m) (auto simp: bindE_def)

lemma writes_onlyD: "writes_only P em \<Longrightarrow> l \<in> set (fst em) \<Longrightarrow> P l"
  by (simp add: writes_only_def list_all_iff)

lemma writes_only_wr: "(\<And>l. l \<in> set ls \<Longrightarrow> P l) \<Longrightarrow> writes_only P (wr ls)"
  by (simp add: writes_only_def wr_def list_all_iff)

lemma writes_only_raise: "writes_only P (raise e)"
  by (simp add: writes_only_def raise_def)

lemma writes_only_then:
  "writes_only P p \<Longrightarrow> writes_only P q \<Longrightarrow> writes_only P (then_emit p q)"
  by (auto simp: writes_only_def then_emit_def split: option.splits)

lemma writes_only_each:
  "(\<And>x l. x \<in> set xs \<Longrightarrow> f x = Inr l \<Longrightarrow> P l) \<Longrightarrow> writes_only P (emit_each f xs)"
proof (induction xs)
  case Nil
  show ?case by (simp add: writes_only_def wr_def)
next
  case (Cons x xs)
  show ?case
  proof (cases "f x")
    case (Inl e)
    then show ?thesis by (simp add: writes_only_raise)
  next
    case (Inr l)
    have "P l" by (rule Cons.prems [of x]) (simp_all add: Inr)
    moreover have "writes_only P (emit_each f xs)"
      by (rule Cons.IH) (rule Cons.prems, simp_all)
    ultimately have "writes_only P (then_emit (wr [l]) (emit_each f xs))"
      by (intro writes_only_then writes_only_wr) simp_all
    with Inr show ?thesis by simp
  qed
qed

lemma writes_only_after:
  "(\<And>x. m = Inr x \<Longrightarrow> writes_only P (f x)) \<Longrightarrow> writes_only P (after m f)"
  by (cases m) (auto simp: after_def writes_only_raise)

lemma writes_only_if:
  "(c \<Longrightarrow> writes_only P p) \<Longrightarrow> (\<not> c \<Longrightarrow> writes_only P q) \<Longrightarrow>
   writes_only P (if c then p else q)"
  by simp

lemma writes_only_mono:
  "writes_only P em \<Longrightarrow> (\<And>l. P l \<Longrightarrow> Q l) \<Longrightarrow> writes_only Q em"
  by (auto simp: writes_only_def list_all_iff)

lemmas writes_only_intros =
  writes_only_after writes_only_then writes_only_each writes_only_wr writes_only_if
  writes_only_raise

lemma masses_emit_writes: "writes_only other_line (masses_emit uts types s)"
  unfolding masses_emit_def
  by (intro writes_only_intros) (auto simp: other_line_def elim!: bindE_InrE)

lemma pair_emit_writes: "writes_only other_line (pair_emit cfg s uts types)"
  unfolding pair_emit_def
  by (intro writes_only_intros) (auto simp: other_line_def elim!: bindE_InrE)

lemma bond_coeffs_emit_writes: "writes_only other_line (bond_coeffs_emit s tb)"
  unfolding bond_coeffs_emit_def
  by (cases "unique_bond_types tb")
     (auto intro!: writes_only_intros simp: other_line_def)

lemma angle_coeffs_emit_writes: "writes_only other_line (angle_coeffs_emit s ub tb)"
  unfolding angle_coeffs_emit_def angle_rows_def
  by (auto intro!: writes_only_intros simp: other_line_def
           split: option.splits angle_table.splits)

lemma dihedral_coeffs_emit_writes:
  "writes_only other_line (dihedral_coeffs_emit env s rb dih tb)"
  unfolding dihedral_coeffs_emit_def dihedral_rows_def
  by (auto intro!: writes_only_intros simp: other_line_def
           split: option.splits dihedral_table.splits prod.splits)

lemma improper_coeffs_emit_writes: "writes_only other_line (improper_coeffs_emit s tb)"
  unfolding improper_coeffs_emit_def
  by (cases "unique_improper_types tb")
     (auto intro!: writes_only_intros simp: other_line_def)

lemma forcefield_emit_writes:
  "writes_only other_line (forcefield_emit env cfg s ub rb dih uts types tb)"
  unfolding forcefield_emit_def emit_all_Cons emit_all_Nil
  by (intro writes_only_then pair_emit_writes bond_coeffs_emit_writes angle_coeffs_emit_writes
        dihedral_coeffs_emit_writes improper_coeffs_emit_writes writes_only_wr) simp

lemma atoms_emit_writes: "writes_only other_line (atoms_emit cfg s uts types)"
  unfolding atoms_emit_def
  by (intro writes_only_intros)
     (auto simp: other_line_def atom_row_def elim!: bindE_InrE split: if_splits)

lemma triclinic_lines_shape:
  "\<exists>xlo xhi ylo yhi zlo zhi xy xz yz.
     triclinic_lines lengths angs mins =
       [BoxBound ''x'' xlo xhi, BoxBound ''y'' ylo yhi, BoxBound ''z'' zlo zhi, BoxTilt xy xz yz]"
proof -
  obtain l1 l2 l3 al be ga m1 m2 m3
    where "lengths = (l1, l2, l3)" "angs = (al, be, ga)" "mins = (m1, m2, m3)"
    by (cases lengths, cases angs, cases mins) auto
  then show ?thesis
    by (simp only: triclinic_lines_def Let_def prod.case) blast
qed

lemma box_lines_other: "l \<in> set (box_lines env s) \<Longrightarrow> other_line l"
proof (cases "box s")
  case None
  assume "l \<in> set (box_lines env s)"
  with None show ?thesis by (simp add: box_lines_def)
next
  case (Some bx)
  then obtain b0 b1 b2 angs where b: "box s = Some ((b0, b1, b2), angs)"
    by (cases bx) auto
  let ?lengths = "(0.1 * b0, 0.1 * b1, 0.1 * b2)"
  obtain m1 m2 m3 x1 x2 x3
    where m: "Box_mins env ?lengths = (m1, m2, m3)" and x: "Box_maxs env ?lengths = (x1, x2, x3)"
    by (cases "Box_mins env ?lengths", cases "Box_maxs env ?lengths") auto
  assume l: "l \<in> set (box_lines env s)"
  show ?thesis
  proof (cases "allclose_90 angs")
    case True
    with b m x have "box_lines env s =
        [BoxOrtho (10 * m1) (10 * x1) ''x'', BoxOrtho (10 * m2) (10 * x2) ''y'',
         BoxOrtho (10 * m3) (10 * x3) ''z'']"
      by (simp add: box_lines_def Let_def)
    with l show ?thesis by (auto simp: other_line_def)
  next
    case False
    with b have "box_lines env s = triclinic_lines ?lengths angs (Box_mins env ?lengths)"
      by (simp add: box_lines_def Let_def)
    with triclinic_lines_shape [of ?lengths angs "Box_mins env ?lengths"] l
    show ?thesis by (auto simp: other_line_def)
  qed
qed

subsection \<open>Bonds without bond types\<close>

lemma write_opened_tables:
  assumes "write_lammpsdata env s cfg = (Some ls, e)"
  shows "\<exists>ff ub rb dih uts types tb.
           build_tables env s ub rb dih = Inr tb \<and>
           file_emit env cfg s ff ub rb dih uts types tb = (ls, e)"
proof (cases rule: write_lammpsdata_cases [of cfg env s])
  case (opened first others bx ub rb dih tb ls' e')
  from opened(6) assms have "ls' = ls" "e' = e" by simp_all
  with opened(4,5) show ?thesis by blast
qed (use assms in simp_all)

lemma bond_part_empty_table:
  assumes "bonds s \<noteq> []" and "bond_types s = []"
  shows "bond_part so s = Inr (None, replicate (length (bonds s)) 1)"
  using assms by (simp add: bond_part_def bond_indices_def)

lemma build_tables_empty_table:
  assumes "build_tables env s ub rb dih = Inr tb" and "bonds s \<noteq> []" and "bond_types s = []"
  shows "assigned_bond_types tb = replicate (length (bonds s)) 1"
  using assms(1) bond_part_empty_table [OF assms(2,3), of "orders env"]
  by (auto simp: build_tables_def elim!: bindE_InrE)

lemma other_line_bond_rows: "other_line l \<Longrightarrow> bond_rows_of_type_1 l"
  by (cases l) (simp_all add: other_line_def bond_rows_of_type_1_def)

lemma bonded_emit_writes:
  assumes "assigned_bond_types tb = replicate n 1"
  shows "writes_only bond_rows_of_type_1 (bonded_emit cfg s rb dih tb)"
  unfolding bonded_emit_def emit_all_Cons emit_all_Nil
  using assms
  by (intro writes_only_intros)
     (auto simp: bond_rows_of_type_1_def py_nth_def elim!: bindE_InrE split: if_splits)

lemma bonded_emit_not_molecular:
  "\<not> is_molecular cfg \<Longrightarrow> bonded_emit cfg s rb dih tb = wr []"
  by (simp add: bonded_emit_def)

lemma header_bond_types:
  "Count n ''bond types'' \<in> set (header_lines cfg s rb dih types tb) \<longleftrightarrow>
     is_molecular cfg \<and> bond_indices s \<noteq> [] \<and> n = len_set (assigned_bond_types tb)"
  by (auto simp: header_lines_def)

lemma header_no_bond_row: "BondRow i t a b \<notin> set (header_lines cfg s rb dih types tb)"
  by (auto simp: header_lines_def)

lemma len_set_replicate: "0 < n \<Longrightarrow> len_set (replicate n x) = 1"
proof -
  have "remdups (replicate (Suc k) x) = [x]" for k
    by (induction k) simp_all
  then show "0 < n \<Longrightarrow> len_set (replicate n x) = 1"
    by (cases n) (simp_all add: len_set_def)
qed

lemma file_emit_rest:
  assumes "writes_only P (bonded_emit cfg s rb dih tb)" and "\<And>l. other_line l \<Longrightarrow> P l"
  shows "\<exists>rest. fst (file_emit env cfg s ff ub rb dih uts types tb) =
      header_lines cfg s rb dih types tb @ box_lines env s @ rest \<and> list_all P rest"
proof -
  let ?rest = "emit_all [masses_emit uts types s,
      if ff then forcefield_emit env cfg s ub rb dih uts types tb else wr [],
      atoms_emit cfg s uts types, bonded_emit cfg s rb dih tb]"
  have "writes_only P ?rest"
    unfolding emit_all_Cons emit_all_Nil
    by (intro writes_only_then writes_only_if writes_only_wr assms(1)
          writes_only_mono [OF masses_emit_writes] writes_only_mono [OF forcefield_emit_writes]
          writes_only_mono [OF atoms_emit_writes] assms(2)) simp_all
  then have "list_all P (fst ?rest)" by (simp add: writes_only_def)
  moreover have "fst (file_emit env cfg s ff ub rb dih uts types tb) =
      header_lines cfg s rb dih types tb @ box_lines env s @ fst ?rest"
    by (simp add: file_emit_def emit_all_Cons then_emit_wr)
  ultimately show ?thesis by blast
qed

text \<open>
  C10, as amended. Let the list of bonds be non-empty and the table of bond types
  empty, and let the call open the file. Then every Bonds row that is written has the
  type 1. With the atom style full or molecular the header has the line ``1 bond types''
  and no other count of bond types; with the atom style atomic or charge the header
  has no count of bond types and no Bonds row is written.
\<close>

theorem empty_bond_type_table:
  assumes "bonds s \<noteq> []"
    and "bond_types s = []"
    and "write_lammpsdata env s cfg = (Some ls, e)"
  shows "(\<forall>i t a b. BondRow i t a b \<in> set ls \<longrightarrow> t = 1) \<and>
         (is_molecular cfg \<longrightarrow>
            Count 1 ''bond types'' \<in> set ls \<and>
            (\<forall>n. Count n ''bond types'' \<in> set ls \<longrightarrow> n = 1)) \<and>
         (\<not> is_molecular cfg \<longrightarrow>
            (\<forall>n. Count n ''bond types'' \<notin> set ls) \<and>
            (\<forall>i t a b. BondRow i t a b \<notin> set ls))"
proof -
  from write_opened_tables [OF assms(3)] obtain ff ub rb dih uts types tb
    where tb: "build_tables env s ub rb dih = Inr tb"
      and fe: "file_emit env cfg s ff ub rb dih uts types tb = (ls, e)" by blast
  have ids: "assigned_bond_types tb = replicate (length (bonds s)) 1"
    by (rule build_tables_empty_table [OF tb assms(1,2)])
  from assms(1) have ne: "bond_indices s \<noteq> []" by (simp add: bond_indices_def)
  from assms(1) ids have one: "len_set (assigned_bond_types tb) = 1"
    by (simp add: len_set_replicate)
  let ?h = "header_lines cfg s rb dih types tb"
  from file_emit_rest [OF bonded_emit_writes [OF ids] other_line_bond_rows,
      where env = env and ff = ff and ub = ub and uts = uts and types = types
        and cfg = cfg and s = s and rb = rb and dih = dih] fe
  obtain rest where ls: "ls = ?h @ box_lines env s @ rest"
    and rest: "list_all bond_rows_of_type_1 rest" by auto
  have box: "\<And>l. l \<in> set (box_lines env s) \<Longrightarrow> other_line l" by (rule box_lines_other)
  have rows: "\<forall>i t a b. BondRow i t a b \<in> set ls \<longrightarrow> t = 1"
  proof (intro allI impI)
    fix i t a b assume "BondRow i t a b \<in> set ls"
    with ls header_no_bond_row [of i t a b cfg s rb dih types tb]
    have "BondRow i t a b \<in> set (box_lines env s) \<or> BondRow i t a b \<in> set rest" by auto
    then show "t = 1"
    proof
      assume "BondRow i t a b \<in> set (box_lines env s)"
      from box [OF this] show ?thesis by (simp add: other_line_def)
    next
      assume "BondRow i t a b \<in> set rest"
      with rest have "bond_rows_of_type_1 (BondRow i t a b)" by (simp add: list_all_iff)
      then show ?thesis by (simp add: bond_rows_of_type_1_def)
    qed
  qed
  have counts: "Count n w \<in> set ls \<Longrightarrow> Count n w \<in> set ?h" for n w
  proof -
    assume "Count n w \<in> set ls"
    with ls have "Count n w \<in> set ?h \<or> Count n w \<in> set (box_lines env s) \<or> Count n w \<in> set rest"
      by auto
    moreover have "Count n w \<notin> set (box_lines env s)"
      using box [of "Count n w"] by (auto simp: other_line_def)
    moreover have "Count n w \<notin> set rest"
      using rest by (auto simp: list_all_iff bond_rows_of_type_1_def)
    ultimately show ?thesis by blast
  qed
  have mol: "is_molecular cfg \<longrightarrow>
      Count 1 ''bond types'' \<in> set ls \<and> (\<forall>n. Count n ''bond types'' \<in> set ls \<longrightarrow> n = 1)"
  proof (intro impI conjI allI)
    assume m: "is_molecular cfg"
    with ne one have "Count 1 ''bond types'' \<in> set ?h" by (simp add: header_bond_types)
    with ls show "Count 1 ''bond types'' \<in> set ls" by simp
    fix n assume "Count n ''bond types'' \<in> set ls"
    from counts [OF this] one show "n = 1" by (simp add: header_bond_types)
  qed
  have nonmol: "\<not> is_molecular cfg \<longrightarrow>
      (\<forall>n. Count n ''bond types'' \<notin> set ls) \<and> (\<forall>i t a b. BondRow i t a b \<notin> set ls)"
  proof (intro impI conjI allI)
    assume m: "\<not> is_molecular cfg"
    fix n show "Count n ''bond types'' \<notin> set ls"
      using counts [of n "''bond types''"] m by (auto simp: header_bond_types)
  next
    assume m: "\<not> is_molecular cfg"
    fix i t a b
    have "writes_only other_line (bonded_emit cfg s rb dih tb)"
      by (simp add: bonded_emit_not_molecular [OF m] writes_only_def wr_def)
    from file_emit_rest [OF this, where env = env and ff = ff and ub = ub and uts = uts
        and types = types] fe ls
    obtain rest' where "ls = ?h @ box_lines env s @ rest'" "list_all other_line rest'" by auto
    with header_no_bond_row [of i t a b cfg s rb dih types tb] box [of "BondRow i t a b"]
    show "BondRow i t a b \<notin> set ls" by (auto simp: list_all_iff other_line_def)
  qed
  from rows mol nonmol show ?thesis by blast
qed

subsection \<open>Bonds without bond types: an example\<close>

lemma ex_untyped_bond_types: "types_of False ex_untyped_bond = [''C'', ''H'']"
  by code_simp

lemma unique_types_C_H: "unique_types forward_orders [''C'', ''H''] = [''C'', ''H'']"
  by code_simp

lemma ex_untyped_bond_tables:
  "build_tables (ex_env forward_orders) ex_untyped_bond False False False =
     Inr one_bond_tables"
  by code_simp

lemma ex_untyped_bond_header_full:
  "header_lines (ex_cfg ''full'') ex_untyped_bond False False [''C'', ''H'']
       one_bond_tables =
     [Title ''out.lammps'', Count 2 ''atoms'', Count 1 ''bonds'', Count 0 ''angles'',
      Count 0 ''dihedrals'', Count 0 ''impropers'', Count 2 ''atom types'',
      Count 1 ''bond types'', Blank]"
  by code_simp

lemma ex_untyped_bond_header_atomic:
  "header_lines (ex_cfg ''atomic'') ex_untyped_bond False False [''C'', ''H'']
       one_bond_tables =
     [Title ''out.lammps'', Count 2 ''atoms'', Count 2 ''atom types'', Blank]"
  by code_simp

lemma ex_untyped_bond_box:
  "box_lines (ex_env forward_orders) ex_untyped_bond =
     [BoxOrtho 0 10 ''x'', BoxOrtho 0 10 ''y'', BoxOrtho 0 10 ''z'']"
  by (simp add: box_lines_def ex_untyped_bond_def ex_atoms_def ex_env_fields allclose_90_def
        np_isclose_def)

lemma ex_untyped_bond_masses:
  "masses_emit [''C'', ''H''] [''C'', ''H''] ex_untyped_bond =
     ([Section ''Masses'', MassRow 1 1 ''C'', MassRow 2 1 ''H''], None)"
  by code_simp

lemma ex_untyped_bond_atoms_full:
  "atoms_emit (ex_cfg ''full'') ex_untyped_bond [''C'', ''H''] [''C'', ''H''] =
     ([Section ''Atoms'', AtomFull 1 0 1 0 0 0 0, AtomFull 2 0 2 0 0 0 0], None)"
  by code_simp

lemma ex_untyped_bond_atoms_atomic:
  "atoms_emit (ex_cfg ''atomic'') ex_untyped_bond [''C'', ''H''] [''C'', ''H''] =
     ([Section ''Atoms'', AtomAtomic 1 1 0 0 0, AtomAtomic 2 2 0 0 0], None)"
  by code_simp

lemma ex_untyped_bond_bonded_full:
  "bonded_emit (ex_cfg ''full'') ex_untyped_bond False False
       one_bond_tables =
     ([Section ''Bonds'', BondRow 1 1 1 2], None)"
  by code_simp

lemma ex_untyped_bond_bonded_atomic:
  "bonded_emit (ex_cfg ''atomic'') ex_untyped_bond False False
       one_bond_tables = ([], None)"
  by code_simp

lemma ex_untyped_bond_facts:
  "atoms ex_untyped_bond = [(mk_atom 0 ''C'')\<lparr>atype := []\<rparr>, (mk_atom 1 ''H'')\<lparr>atype := []\<rparr>]"
  "bonds ex_untyped_bond \<noteq> []" "bond_types ex_untyped_bond = []"
  "detect_styles (ex_cfg style) ex_untyped_bond = (False, False, False)"
  "box ex_untyped_bond = Some ((10, 10, 10), (90, 90, 90))"
  by (simp_all add: ex_untyped_bond_def ex_atoms_def detect_styles_def ex_cfg_fields)

lemma ex_untyped_bond_run_full:
  "write_lammpsdata (ex_env forward_orders) ex_untyped_bond (ex_cfg ''full'') =
     (Some [Title ''out.lammps'', Count 2 ''atoms'', Count 1 ''bonds'', Count 0 ''angles'',
            Count 0 ''dihedrals'', Count 0 ''impropers'', Count 2 ''atom types'',
            Count 1 ''bond types'', Blank,
            BoxOrtho 0 10 ''x'', BoxOrtho 0 10 ''y'', BoxOrtho 0 10 ''z'',
            Section ''Masses'', MassRow 1 1 ''C'', MassRow 2 1 ''H'',
            Section ''Atoms'', AtomFull 1 0 1 0 0 0 0, AtomFull 2 0 2 0 0 0 0,
            Section ''Bonds'', BondRow 1 1 1 2],
      None)"
proof -
  have fe: "file_emit (ex_env forward_orders) (ex_cfg ''full'') ex_untyped_bond False False False
      False [''C'', ''H''] [''C'', ''H''] one_bond_tables =
     ([Title ''out.lammps'', Count 2 ''atoms'', Count 1 ''bonds'', Count 0 ''angles'',
            Count 0 ''dihedrals'', Count 0 ''impropers'', Count 2 ''atom types'',
            Count 1 ''bond types'', Blank,
            BoxOrtho 0 10 ''x'', BoxOrtho 0 10 ''y'', BoxOrtho 0 10 ''z'',
            Section ''Masses'', MassRow 1 1 ''C'', MassRow 2 1 ''H'',
            Section ''Atoms'', AtomFull 1 0 1 0 0 0 0, AtomFull 2 0 2 0 0 0 0,
            Section ''Bonds'', BondRow 1 1 1 2], None)"
    by (simp add: file_emit_def emit_all_Cons emit_all_Nil then_emit_wr
          ex_untyped_bond_header_full ex_untyped_bond_box ex_untyped_bond_masses
          ex_untyped_bond_atoms_full ex_untyped_bond_bonded_full then_emit_def)
  show ?thesis
    by (simp add: write_lammpsdata_def ex_cfg_fields ex_untyped_bond_facts mk_atom_fields
          ex_untyped_bond_types ex_env_fields unique_types_C_H ex_untyped_bond_tables fe Let_def)
qed

lemma ex_untyped_bond_run_atomic:
  "write_lammpsdata (ex_env forward_orders) ex_untyped_bond (ex_cfg ''atomic'') =
     (Some [Title ''out.lammps'', Count 2 ''atoms'', Count 2 ''atom types'', Blank,
            BoxOrtho 0 10 ''x'', BoxOrtho 0 10 ''y'', BoxOrtho 0 10 ''z'',
            Section ''Masses'', MassRow 1 1 ''C'', MassRow 2 1 ''H'',
            Section ''Atoms'', AtomAtomic 1 1 0 0 0, AtomAtomic 2 2 0 0 0],
      None)"
proof -
  have fe: "file_emit (ex_env forward_orders) (ex_cfg ''atomic'') ex_untyped_bond False False False
      False [''C'', ''H''] [''C'', ''H''] one_bond_tables =
     ([Title ''out.lammps'', Count 2 ''atoms'', Count 2 ''atom types'', Blank,
            BoxOrtho 0 10 ''x'', BoxOrtho 0 10 ''y'', BoxOrtho 0 10 ''z'',
            Section ''Masses'', MassRow 1 1 ''C'', MassRow 2 1 ''H'',
            Section ''Atoms'', AtomAtomic 1 1 0 0 0, AtomAtomic 2 2 0 0 0], None)"
    by (simp add: file_emit_def emit_all_Cons emit_all_Nil then_emit_wr
          ex_untyped_bond_header_atomic ex_untyped_bond_box ex_untyped_bond_masses
          ex_untyped_bond_atoms_atomic ex_untyped_bond_bonded_atomic then_emit_def)
  show ?thesis
    by (simp add: write_lammpsdata_def ex_cfg_fields ex_untyped_bond_facts mk_atom_fields
          ex_untyped_bond_types ex_env_fields unique_types_C_H ex_untyped_bond_tables fe Let_def)
qed

theorem empty_bond_type_table_witness:
  "bonds ex_untyped_bond \<noteq> [] \<and> bond_types ex_untyped_bond = [] \<and>
   is_molecular (ex_cfg ''full'') \<and> \<not> is_molecular (ex_cfg ''atomic'') \<and>
   (\<exists>ls e. write_lammpsdata (ex_env forward_orders) ex_untyped_bond (ex_cfg ''full'') = (Some ls, e) \<and>
      BondRow 1 1 1 2 \<in> set ls \<and> Count 1 ''bond types'' \<in> set ls \<and>
      (\<forall>i t a b. BondRow i t a b \<in> set ls \<longrightarrow> t = 1) \<and>
      (\<forall>n. Count n ''bond types'' \<in> set ls \<longrightarrow> n = 1)) \<and>
   (\<exists>ls e. write_lammpsdata (ex_env forward_orders) ex_untyped_bond (ex_cfg ''atomic'') = (Some ls, e) \<and>
      (\<forall>n. Count n ''bond types'' \<notin> set ls) \<and> (\<forall>i t a b. BondRow i t a b \<notin> set ls))"
proof -
  have m: "is_molecular (ex_cfg ''full'')" "\<not> is_molecular (ex_cfg ''atomic'')"
    by (simp_all add: is_molecular_def ex_cfg_fields)
  note f = empty_bond_type_table [OF ex_untyped_bond_facts(2,3) ex_untyped_bond_run_full]
  note a = empty_bond_type_table [OF ex_untyped_bond_facts(2,3) ex_untyped_bond_run_atomic]
  have 1: "\<exists>ls e. write_lammpsdata (ex_env forward_orders) ex_untyped_bond (ex_cfg ''full'') = (Some ls, e) \<and>
      BondRow 1 1 1 2 \<in> set ls \<and> Count 1 ''bond types'' \<in> set ls \<and>
      (\<forall>i t a b. BondRow i t a b \<in> set ls \<longrightarrow> t = 1) \<and>
      (\<forall>n. Count n ''bond types'' \<in> set ls \<longrightarrow> n = 1)"
    apply (intro exI conjI)
        apply (rule ex_untyped_bond_run_full)
       apply simp
    using f m(1) apply blast
    using f apply blast
    using f m(1) apply blast
    done
  have 2: "\<exists>ls e. write_lammpsdata (ex_env forward_orders) ex_untyped_bond (ex_cfg ''atomic'') = (Some ls, e) \<and>
      (\<forall>n. Count n ''bond types'' \<notin> set ls) \<and> (\<forall>i t a b. BondRow i t a b \<notin> set ls)"
    apply (intro exI conjI)
      apply (rule ex_untyped_bond_run_atomic)
    using a m(2) apply blast
    using a m(2) apply blast
    done
  from 1 2 m ex_untyped_bond_facts(2,3) show ?thesis by blast
qed

text \<open>
  C10, the claim as stated, fails for the atom style atomic: the structure has a bond and
  no bond types, and the header written has no count of bond types at all.
\<close>

theorem atomic_style_declares_no_bond_types:
  "bonds ex_untyped_bond \<noteq> [] \<and> bond_types ex_untyped_bond = [] \<and>
   write_lammpsdata (ex_env forward_orders) ex_untyped_bond (ex_cfg ''atomic'') =
     (Some [Title ''out.lammps'', Count 2 ''atoms'', Count 2 ''atom types'', Blank,
            BoxOrtho 0 10 ''x'', BoxOrtho 0 10 ''y'', BoxOrtho 0 10 ''z'',
            Section ''Masses'', MassRow 1 1 ''C'', MassRow 2 1 ''H'',
            Section ''Atoms'', AtomAtomic 1 1 0 0 0, AtomAtomic 2 2 0 0 0],
      None)"
  by (simp add: ex_untyped_bond_facts ex_untyped_bond_run_atomic)

end
